theory Spec2Isabelle
  imports Complex_Main "HOL-Library.Word" "HOL-Library.Char_ord" "HOL-Library.List_Lexorder"
    "HOL-Library.Multiset"
begin

section \<open>The HTTP route compiler of pilot: data model\<close>

text \<open>
  The development follows the Go package \<open>route\<close> (the file with
  \<open>BuildHTTPRoutesForVirtualService\<close>, \<open>translateRoute\<close> and \<open>CombineVHostRoutes\<close>).
  It embeds the compilation of the rules of one virtual service into routes, with every
  function that this compilation calls, and the combiner of route lists. The functions
  that group the routes into virtual hosts and that synthesise the default routes of
  services with no rule are not part of it.

  Conventions of the embedding.
  \<^item> A protobuf message is a record, a oneof is a datatype, and a pointer that the code
    tests against nil (or reads through a nil-safe getter) is an \<open>option\<close>.
  \<^item> A pointer that the code dereferences with no nil test is a plain field, and the
    elements of a repeated field are plain values: a decoded, validated configuration has
    no nil there, and the Go code would panic on one.
  \<^item> A Go map that the code iterates is an association list: the order of the list is
    the order in which the runtime happens to iterate the map, which Go leaves open.
    A Go map has no duplicate keys; theorems that need this say so. A Go map that the
    code only reads by key is a function.
  \<^item> \<open>uint32\<close> and \<open>int32\<close> values are \<open>32 word\<close>: the conversions between the two
    that the code performs keep the bits. A Go \<open>int\<close> (a port) is an \<open>int\<close>, and the
    conversion \<open>uint32(port)\<close> is \<open>word_of_int\<close>.
  \<^item> A \<open>float64\<close> is a binary64 number with its rounding: a significand and an
    exponent, the two infinities, and what is not a number. What the language leaves to
    the implementation, the conversion to \<open>uint32\<close> of a float out of its range, is a
    parameter.
  \<^item> A slice that the code tests against nil is an \<open>option\<close> of a list; any other slice
    is a list, nil being the empty list.
  \<^item> Where the code stores what a helper from outside these sources makes of a value
    (a serialisation, a conversion between two representations of one message), the field
    holds the value that the helper is given.
\<close>

subsection \<open>Input: the virtual service\<close>

datatype StringMatch_MatchType =
    StringMatch_Exact string
  | StringMatch_Prefix string
  | StringMatch_Regex string

record StringMatch =
  MatchType :: "StringMatch_MatchType option"

record HTTPMatchRequest =
  m_Name :: string
  m_Uri :: "StringMatch option"
  m_Scheme :: "StringMatch option"
  m_Method :: "StringMatch option"
  m_Authority :: "StringMatch option"
  m_Headers :: "(string \<times> StringMatch option) list"
  m_Port :: "32 word"
  m_SourceLabels :: "(string \<times> string) list"
  m_Gateways :: "string list"
  m_QueryParams :: "(string \<times> StringMatch) list"
  m_IgnoreUriCase :: bool
  m_WithoutHeaders :: "(string \<times> StringMatch option) list"
  m_SourceNamespace :: string

subsection \<open>Output: the route match\<close>

datatype RegexEngine = GoogleRe2

record RegexMatcher =
  EngineType :: RegexEngine
  Regex :: string

datatype HeaderMatchSpecifier =
    HeaderMatcher_ExactMatch string
  | HeaderMatcher_PrefixMatch string
  | HeaderMatcher_SafeRegexMatch RegexMatcher
  | HeaderMatcher_PresentMatch bool

record HeaderMatcher =
  hm_Name :: string
  hm_HeaderMatchSpecifier :: "HeaderMatchSpecifier option"
  hm_InvertMatch :: bool

datatype StringMatcher_MatchPattern =
    StringMatcher_Exact string
  | StringMatcher_Prefix string
  | StringMatcher_SafeRegex RegexMatcher

record QueryParameterMatcher =
  qp_Name :: string
  qp_StringMatch :: "StringMatcher_MatchPattern option"

datatype PathSpecifier =
    RouteMatch_Prefix string
  | RouteMatch_Path string
  | RouteMatch_SafeRegex "RegexMatcher option"

record RouteMatch =
  rm_PathSpecifier :: "PathSpecifier option"
  rm_Headers :: "HeaderMatcher list"
  rm_QueryParameters :: "QueryParameterMatcher list"
  rm_CaseSensitive :: "bool option"

section \<open>Match translation\<close>

definition HeaderMethod :: string where
  "HeaderMethod = '':method''"

definition HeaderAuthority :: string where
  "HeaderAuthority = '':authority''"

definition HeaderScheme :: string where
  "HeaderScheme = '':scheme''"

text \<open>\<open>regexMatcher\<close> returns the package's one regex engine, whatever the proxy.\<close>

definition regexMatcher :: RegexEngine where
  "regexMatcher = GoogleRe2"

text \<open>
  \<open>isCatchAllHeaderMatch\<close>: a nil predicate is catch-all; otherwise only the regex
  \<open>*\<close> is.
\<close>

fun isCatchAllHeaderMatch :: "StringMatch option \<Rightarrow> bool" where
  "isCatchAllHeaderMatch None = True"
| "isCatchAllHeaderMatch (Some sm) =
     (case MatchType sm of
        Some (StringMatch_Regex r) \<Rightarrow> r = ''*''
      | _ \<Rightarrow> False)"

definition translateHeaderMatch :: "string \<Rightarrow> StringMatch option \<Rightarrow> HeaderMatcher" where
  "translateHeaderMatch name sm =
     (let out = \<lparr>hm_Name = name, hm_HeaderMatchSpecifier = None, hm_InvertMatch = False\<rparr>
      in if isCatchAllHeaderMatch sm
         then out\<lparr>hm_HeaderMatchSpecifier := Some (HeaderMatcher_PresentMatch True)\<rparr>
         else (case sm of
                 None \<Rightarrow> out
               | Some s \<Rightarrow>
                  (case MatchType s of
                     Some (StringMatch_Exact e) \<Rightarrow>
                       out\<lparr>hm_HeaderMatchSpecifier := Some (HeaderMatcher_ExactMatch e)\<rparr>
                   | Some (StringMatch_Prefix p) \<Rightarrow>
                       out\<lparr>hm_HeaderMatchSpecifier := Some (HeaderMatcher_PrefixMatch p)\<rparr>
                   | Some (StringMatch_Regex r) \<Rightarrow>
                       out\<lparr>hm_HeaderMatchSpecifier :=
                         Some (HeaderMatcher_SafeRegexMatch
                                \<lparr>EngineType = regexMatcher, Regex = r\<rparr>)\<rparr>
                   | None \<Rightarrow> out)))"

definition translateQueryParamMatch :: "string \<Rightarrow> StringMatch \<Rightarrow> QueryParameterMatcher" where
  "translateQueryParamMatch name sm =
     (let out = \<lparr>qp_Name = name, qp_StringMatch = None\<rparr>
      in case MatchType sm of
           Some (StringMatch_Exact e) \<Rightarrow> out\<lparr>qp_StringMatch := Some (StringMatcher_Exact e)\<rparr>
         | Some (StringMatch_Regex r) \<Rightarrow>
             out\<lparr>qp_StringMatch :=
               Some (StringMatcher_SafeRegex \<lparr>EngineType = regexMatcher, Regex = r\<rparr>)\<rparr>
         | _ \<Rightarrow> out)"

text \<open>
  \<open>sort.Slice\<close> and \<open>sort.Stable\<close> belong to the Go standard library. Both are
  given here by insertion with the caller's \<open>less\<close>, which is a stable sort: the
  elements are taken from left to right, and each goes into the sorted part in front of
  the first element it is less than, so behind every element that is not greater. For
  \<open>sort.Slice\<close>, which promises no stability, the order among header matchers of equal
  name is therefore one of the orders the library may produce; no property below reads it.
\<close>

fun insertStable :: "('a \<Rightarrow> 'a \<Rightarrow> bool) \<Rightarrow> 'a \<Rightarrow> 'a list \<Rightarrow> 'a list" where
  "insertStable lt x [] = [x]"
| "insertStable lt x (y # ys) =
     (if lt x y then x # y # ys else y # insertStable lt x ys)"

definition sortStable :: "('a \<Rightarrow> 'a \<Rightarrow> bool) \<Rightarrow> 'a list \<Rightarrow> 'a list" where
  "sortStable lt xs = foldl (\<lambda>acc x. insertStable lt x acc) [] xs"

text \<open>
  \<open>translateRouteMatch\<close>. The default is the prefix \<open>/\<close>; with no match block that is
  all. The pseudo-headers for method, authority and scheme are appended after the sort.
\<close>

definition translateRouteMatch :: "HTTPMatchRequest option \<Rightarrow> RouteMatch" where
  "translateRouteMatch inp =
     (let out = \<lparr>rm_PathSpecifier = Some (RouteMatch_Prefix ''/''), rm_Headers = [],
                 rm_QueryParameters = [], rm_CaseSensitive = None\<rparr>
      in case inp of
           None \<Rightarrow> out
         | Some m \<Rightarrow>
            (let hs1 = map (\<lambda>(name, sm). translateHeaderMatch name sm) (m_Headers m);
                 hs2 = map (\<lambda>(name, sm). (translateHeaderMatch name sm)\<lparr>hm_InvertMatch := True\<rparr>)
                          (m_WithoutHeaders m);
                 hs3 = sortStable (\<lambda>a b. hm_Name a < hm_Name b) (hs1 @ hs2);
                 ps = (case m_Uri m of
                         None \<Rightarrow> rm_PathSpecifier out
                       | Some u \<Rightarrow>
                          (case MatchType u of
                             Some (StringMatch_Exact e) \<Rightarrow> Some (RouteMatch_Path e)
                           | Some (StringMatch_Prefix p) \<Rightarrow> Some (RouteMatch_Prefix p)
                           | Some (StringMatch_Regex r) \<Rightarrow>
                               Some (RouteMatch_SafeRegex
                                      (Some \<lparr>EngineType = regexMatcher, Regex = r\<rparr>))
                           | None \<Rightarrow> rm_PathSpecifier out));
                 hs4 = (case m_Method m of
                          None \<Rightarrow> hs3
                        | Some _ \<Rightarrow> hs3 @ [translateHeaderMatch HeaderMethod (m_Method m)]);
                 hs5 = (case m_Authority m of
                          None \<Rightarrow> hs4
                        | Some _ \<Rightarrow> hs4 @ [translateHeaderMatch HeaderAuthority (m_Authority m)]);
                 hs6 = (case m_Scheme m of
                          None \<Rightarrow> hs5
                        | Some _ \<Rightarrow> hs5 @ [translateHeaderMatch HeaderScheme (m_Scheme m)]);
                 qs = map (\<lambda>(name, sm). translateQueryParamMatch name sm) (m_QueryParams m)
             in \<lparr>rm_PathSpecifier = ps, rm_Headers = hs6, rm_QueryParameters = qs,
                 rm_CaseSensitive = Some (\<not> m_IgnoreUriCase m)\<rparr>))"

text \<open>\<open>isCatchAllMatch\<close> and \<open>catchAllMatch\<close>: the first catch-all block of a rule, if any.\<close>

definition isCatchAllMatch :: "HTTPMatchRequest \<Rightarrow> bool" where
  "isCatchAllMatch m =
     (let catchall = (case m_Uri m of
                        None \<Rightarrow> False
                      | Some u \<Rightarrow>
                         (case MatchType u of
                            Some (StringMatch_Prefix p) \<Rightarrow> p = ''/''
                          | Some (StringMatch_Regex r) \<Rightarrow> r = ''*''
                          | _ \<Rightarrow> False))
      in catchall \<and> length (m_Headers m) = 0 \<and> length (m_QueryParams m) = 0)"

fun catchAllMatch_loop :: "HTTPMatchRequest list \<Rightarrow> HTTPMatchRequest option" where
  "catchAllMatch_loop [] = None"
| "catchAllMatch_loop (m # ms) = (if isCatchAllMatch m then Some m else catchAllMatch_loop ms)"

section \<open>Rules, destinations and the compiled route\<close>

subsection \<open>Input: the rule\<close>

record Destination =
  d_Host :: string
  d_Subset :: string
  d_Port :: "32 word option"

record HeaderOperations =
  ho_Set :: "(string \<times> string) list"
  ho_Add :: "(string \<times> string) list"
  ho_Remove :: "string list"

record Headers =
  hd_Request :: "HeaderOperations option"
  hd_Response :: "HeaderOperations option"

record HTTPRouteDestination =
  rd_Destination :: Destination
  rd_Weight :: "32 word"
  rd_Headers :: "Headers option"

record HTTPRedirect =
  rdr_Uri :: string
  rdr_Authority :: string
  rdr_RedirectCode :: "32 word"

record HTTPRewrite =
  rw_Uri :: string
  rw_Authority :: string

text \<open>
  A \<open>float64\<close> of Go is a binary64 number of IEEE 754. \<open>Finite m e\<close> is the number
  \<open>m * 2 ^ e\<close>; a binary64 number has this form with \<open>\<bar>m\<bar> < 2 ^ 53\<close> and
  \<open>- 1074 \<le> e\<close>, \<open>e \<le> 971\<close>. The two zeros are one value here: the code multiplies a
  float, compares it with zero and converts it to an integer, and none of these tells the
  two zeros apart.
\<close>

datatype float64 = Finite int int | PosInf | NegInf | NaN

record Percent =
  pc_Value :: float64

record Duration =
  Seconds :: int
  Nanos :: int

datatype HttpDelayType =
    Delay_FixedDelay "Duration option"
  | Delay_ExponentialDelay "Duration option"

record HTTPFaultInjection_Delay =
  fd_Percent :: "32 word"
  fd_HttpDelayType :: "HttpDelayType option"
  fd_Percentage :: "Percent option"

datatype AbortErrorType =
    Abort_HttpStatus "32 word"
  | Abort_GrpcStatus string
  | Abort_Http2Error string

text \<open>
  The code reads two fields of an abort: its error type and its \<open>Percentage\<close>. It reads
  no integer percent of an abort, as it does of a delay.
\<close>

record HTTPFaultInjection_Abort =
  fa_ErrorType :: "AbortErrorType option"
  fa_Percentage :: "Percent option"

record HTTPFaultInjection =
  fi_Delay :: "HTTPFaultInjection_Delay option"
  fi_Abort :: "HTTPFaultInjection_Abort option"

record CorsPolicy =
  cp_AllowOrigin :: "string list option"
  cp_AllowOrigins :: "StringMatch list option"
  cp_AllowMethods :: "string list"
  cp_AllowHeaders :: "string list"
  cp_ExposeHeaders :: "string list"
  cp_MaxAge :: "Duration option"
  cp_AllowCredentials :: "bool option"

text \<open>
  The retry specification of a rule. The code hands it to \<open>retry.ConvertPolicy\<close> and reads
  none of its fields.
\<close>

record HTTPRetry =
  rt_Attempts :: "32 word"
  rt_PerTryTimeout :: "Duration option"
  rt_RetryOn :: string

record HTTPRoute =
  h_Name :: string
  h_Match :: "HTTPMatchRequest list"
  h_Route :: "HTTPRouteDestination list"
  h_Redirect :: "HTTPRedirect option"
  h_Rewrite :: "HTTPRewrite option"
  h_Timeout :: "Duration option"
  h_Retries :: "HTTPRetry option"
  h_Fault :: "HTTPFaultInjection option"
  h_Mirror :: "Destination option"
  h_MirrorPercent :: "32 word option"
  h_MirrorPercentage :: "Percent option"
  h_CorsPolicy :: "CorsPolicy option"
  h_Headers :: "Headers option"

record VirtualService =
  vs_Hosts :: "string list"
  vs_Http :: "HTTPRoute list"

datatype Spec = Spec_VirtualService VirtualService | Spec_Other

record ConfigMeta =
  cm_Name :: string
  cm_Namespace :: string

record Config =
  cfg_ConfigMeta :: ConfigMeta
  cfg_Spec :: Spec

subsection \<open>Input: the proxy and the registry\<close>

record NodeMetadata =
  nm_Labels :: "(string \<times> string) list"
  nm_Namespace :: string

record Proxy =
  Metadata :: NodeMetadata

record Port =
  p_Port :: int

record Service =
  s_Hostname :: string
  s_Ports :: "Port list"
  s_Namespace :: string

type_synonym ServiceRegistry = "string \<Rightarrow> Service option"

subsection \<open>Input: the destination rules\<close>

record HTTPCookie =
  ck_Name :: string
  ck_Path :: string
  ck_Ttl :: "Duration option"

datatype ConsistentHashLB_HashKey =
    ConsistentHashLB_HttpHeaderName string
  | ConsistentHashLB_HttpCookie "HTTPCookie option"
  | ConsistentHashLB_UseSourceIp bool
  | ConsistentHashLB_HttpQueryParameterName string

record ConsistentHashLB =
  ch_HashKey :: "ConsistentHashLB_HashKey option"

text \<open>Of the load balancer settings the code reads the consistent hash, nil for any other policy.\<close>

record LoadBalancerSettings =
  lb_ConsistentHash :: "ConsistentHashLB option"

record PortTrafficPolicy =
  pls_Port :: "32 word option"
  pls_LoadBalancer :: "LoadBalancerSettings option"

record TrafficPolicy =
  tp_LoadBalancer :: "LoadBalancerSettings option"
  tp_PortLevelSettings :: "PortTrafficPolicy list"

record Subset =
  ss_Name :: string
  ss_TrafficPolicy :: "TrafficPolicy option"

record DestinationRule =
  dr_TrafficPolicy :: "TrafficPolicy option"
  dr_Subsets :: "Subset list"

text \<open>
  The push context is read through one method, \<open>push.DestinationRule\<close> (package
  \<open>model\<close>, outside these sources): the destination rule, if any, that applies for a
  proxy to the service of a given hostname and namespace. It is a parameter of the model.
\<close>

record PushContext =
  pc_DestinationRule :: "Proxy \<Rightarrow> string \<Rightarrow> string \<Rightarrow> DestinationRule option"

subsection \<open>Output: the route\<close>

record HeaderValue =
  hv_Key :: string
  hv_Value :: string

record HeaderValueOption =
  hvo_Header :: "HeaderValue option"
  hvo_Append :: "bool option"

datatype TrafficDirection = TrafficDirectionInbound | TrafficDirectionOutbound

text \<open>
  Modelled from the spec: \<open>model.BuildSubsetKey\<close> (package \<open>model\<close>, not among these
  sources), the encoder of a cluster identifier from the tuple (direction, subset,
  hostname, port), which the spec requires to be injective and to decode back to the exact
  tuple. The identifier is kept as the tuple itself.
\<close>

record SubsetKey =
  sk_direction :: TrafficDirection
  sk_subsetName :: string
  sk_hostname :: string
  sk_port :: int

definition BuildSubsetKey :: "TrafficDirection \<Rightarrow> string \<Rightarrow> string \<Rightarrow> int \<Rightarrow> SubsetKey" where
  "BuildSubsetKey direction subsetName hostname port =
     \<lparr>sk_direction = direction, sk_subsetName = subsetName, sk_hostname = hostname,
      sk_port = port\<rparr>"

record ClusterWeight =
  cw_Name :: SubsetKey
  cw_Weight :: "32 word"
  cw_RequestHeadersToAdd :: "HeaderValueOption option list"
  cw_RequestHeadersToRemove :: "string list"
  cw_ResponseHeadersToAdd :: "HeaderValueOption option list"
  cw_ResponseHeadersToRemove :: "string list"

datatype DenominatorType = HUNDRED | TEN_THOUSAND | MILLION

record FractionalPercent =
  Numerator :: "32 word"
  Denominator :: DenominatorType

record RequestMirrorPolicy =
  mp_Cluster :: SubsetKey
  mp_RuntimeFraction :: FractionalPercent
  mp_TraceSampled :: bool

datatype ClusterSpecifier =
    RouteAction_Cluster SubsetKey
  | RouteAction_WeightedClusters "ClusterWeight list"

datatype HashPolicy =
    HashPolicy_Header string
  | HashPolicy_Cookie string "Duration option" string
  | HashPolicy_ConnectionProperties bool
  | HashPolicy_QueryParameter string

record route_CorsPolicy =
  co_AllowOriginStringMatch :: "StringMatcher_MatchPattern list"
  co_FilterEnabled :: "FractionalPercent option"
  co_AllowCredentials :: "bool option"
  co_AllowHeaders :: string
  co_AllowMethods :: string
  co_ExposeHeaders :: string
  co_MaxAge :: string

text \<open>
  \<open>ra_RetryPolicy\<close> holds the retry specification that \<open>retry.ConvertPolicy\<close> is given,
  and the two timeouts hold the duration that \<open>gogo.DurationToProtoDuration\<close> is given.
\<close>

record RouteAction =
  ra_ClusterSpecifier :: "ClusterSpecifier option"
  ra_Cors :: "route_CorsPolicy option"
  ra_RetryPolicy :: "HTTPRetry option"
  ra_Timeout :: "Duration option"
  ra_MaxGrpcTimeout :: "Duration option"
  ra_PrefixRewrite :: string
  ra_HostRewriteLiteral :: "string option"
  ra_RequestMirrorPolicies :: "RequestMirrorPolicy list"
  ra_HashPolicy :: "HashPolicy list"

datatype RedirectResponseCode =
    MOVED_PERMANENTLY | FOUND | SEE_OTHER | TEMPORARY_REDIRECT | PERMANENT_REDIRECT

record RedirectAction =
  HostRedirect :: string
  PathRedirect :: string
  ResponseCode :: RedirectResponseCode

text \<open>\<open>Route_Redirect None\<close> is the nil redirect action left by an unsupported code.\<close>

datatype Action =
    Route_Redirect "RedirectAction option"
  | Route_Route RouteAction

datatype FaultDelaySpecifier = FaultDelay_FixedDelay "Duration option"

record FaultDelay =
  xd_Percentage :: "FractionalPercent option"
  xd_FaultDelaySecifier :: "FaultDelaySpecifier option"

datatype FaultAbortErrorType = FaultAbort_HttpStatus "32 word"

record FaultAbort =
  xa_Percentage :: "FractionalPercent option"
  xa_ErrorType :: "FaultAbortErrorType option"

record HTTPFault =
  xf_Delay :: "FaultDelay option"
  xf_Abort :: "FaultAbort option"

record Decorator =
  Operation :: string

text \<open>
  Of the map \<open>TypedPerFilterConfig\<close> the code writes one key, that of the fault filter.
  The field \<open>r_FaultFilterConfig\<close> is that entry: \<open>None\<close> while the key is absent, and
  \<open>Some msg\<close> once the code has stored the serialisation of the message \<open>msg\<close> (the
  serialiser \<open>util.MessageToAny\<close> is outside these sources), where \<open>msg\<close> is the
  possibly nil result of \<open>translateFault\<close>. The field \<open>r_Metadata\<close> holds the
  configuration metadata that \<open>util.BuildConfigInfoMetadata\<close> is given.
\<close>

record Route =
  r_Match :: RouteMatch
  r_Metadata :: "ConfigMeta option"
  r_Name :: string
  r_RequestHeadersToAdd :: "HeaderValueOption option list"
  r_ResponseHeadersToAdd :: "HeaderValueOption option list"
  r_RequestHeadersToRemove :: "string list"
  r_ResponseHeadersToRemove :: "string list"
  r_Action :: "Action option"
  r_Decorator :: "Decorator option"
  r_FaultFilterConfig :: "HTTPFault option option"

section \<open>Action and policy translation\<close>

definition catchAllMatch :: "HTTPRoute \<Rightarrow> HTTPMatchRequest option" where
  "catchAllMatch http = catchAllMatch_loop (h_Match http)"

subsection \<open>Destination cluster\<close>

definition GetDestinationCluster :: "Destination \<Rightarrow> Service option \<Rightarrow> int \<Rightarrow> SubsetKey" where
  "GetDestinationCluster destination service listenerPort =
     (let port = (case d_Port destination of
                    Some number \<Rightarrow> uint number
                  | None \<Rightarrow>
                     (case service of
                        None \<Rightarrow> listenerPort
                      | Some svc \<Rightarrow>
                         (if length (s_Ports svc) = 1 then p_Port (hd (s_Ports svc))
                          else listenerPort)))
      in BuildSubsetKey TrafficDirectionOutbound (d_Subset destination) (d_Host destination) port)"

subsection \<open>Source filter\<close>

text \<open>
  Modelled from the spec: \<open>labels.Collection.IsSupersetOf\<close> (package \<open>labels\<close>, not
  among these sources), the test that a source-label filter admits the proxy's identity:
  some label set of the collection carries every label that the filter requires, with the
  required value. A filter that requires nothing admits every proxy.
\<close>

definition IsSupersetOf :: "(string \<times> string) list list \<Rightarrow> (string \<times> string) list \<Rightarrow> bool" where
  "IsSupersetOf c that =
     (if length that = 0 then True
      else list_ex (\<lambda>this. list_all (\<lambda>(k, v). map_of this k = Some v) that) c)"

text \<open>The map \<open>gatewayNames\<close> is read by key only; a missing key reads \<open>false\<close>.\<close>

definition sourceMatchHTTP ::
  "HTTPMatchRequest option \<Rightarrow> (string \<times> string) list list \<Rightarrow> (string \<Rightarrow> bool) \<Rightarrow> string \<Rightarrow> bool"
where
  "sourceMatchHTTP match proxyLabels gatewayNames proxyNamespace =
     (case match of
        None \<Rightarrow> True
      | Some m \<Rightarrow>
         (if length (m_Gateways m) > 0 then list_ex gatewayNames (m_Gateways m)
          else if IsSupersetOf proxyLabels (m_SourceLabels m)
               then m_SourceNamespace m = [] \<or> m_SourceNamespace m = proxyNamespace
               else False))"

subsection \<open>Header mutations\<close>

text \<open>\<open>Less\<close> of \<open>SortHeaderValueOption\<close>: an entry with no header is less than nothing.\<close>

definition Less :: "HeaderValueOption option \<Rightarrow> HeaderValueOption option \<Rightarrow> bool" where
  "Less bi bj =
     (case (case bi of None \<Rightarrow> None | Some oi \<Rightarrow> hvo_Header oi) of
        None \<Rightarrow> False
      | Some hi \<Rightarrow>
         (case (case bj of None \<Rightarrow> None | Some oj \<Rightarrow> hvo_Header oj) of
            None \<Rightarrow> True
          | Some hj \<Rightarrow> hv_Key hi < hv_Key hj))"

text \<open>The entry that \<open>translateAppendHeaders\<close> builds for one key of the map.\<close>

definition headerValueOption :: "bool \<Rightarrow> string \<times> string \<Rightarrow> HeaderValueOption option" where
  "headerValueOption appendFlag kv =
     Some \<lparr>hvo_Header = Some \<lparr>hv_Key = fst kv, hv_Value = snd kv\<rparr>,
           hvo_Append = Some appendFlag\<rparr>"

definition translateAppendHeaders ::
  "(string \<times> string) list \<Rightarrow> bool \<Rightarrow> HeaderValueOption option list"
where
  "translateAppendHeaders headers appendFlag =
     (if length headers = 0 then []
      else sortStable Less (map (headerValueOption appendFlag) headers))"

text \<open>An entry has a key when neither the entry nor its header is nil.\<close>

definition hasKey :: "HeaderValueOption option \<Rightarrow> bool" where
  "hasKey b = (case b of None \<Rightarrow> False | Some x \<Rightarrow> hvo_Header x \<noteq> None)"

record headersOperations =
  requestHeadersToAdd :: "HeaderValueOption option list"
  responseHeadersToAdd :: "HeaderValueOption option list"
  requestHeadersToRemove :: "string list"
  responseHeadersToRemove :: "string list"

definition GetSet :: "HeaderOperations option \<Rightarrow> (string \<times> string) list" where
  "GetSet x = (case x of None \<Rightarrow> [] | Some ops \<Rightarrow> ho_Set ops)"

definition GetAdd :: "HeaderOperations option \<Rightarrow> (string \<times> string) list" where
  "GetAdd x = (case x of None \<Rightarrow> [] | Some ops \<Rightarrow> ho_Add ops)"

definition GetRemove :: "HeaderOperations option \<Rightarrow> string list" where
  "GetRemove x = (case x of None \<Rightarrow> [] | Some ops \<Rightarrow> ho_Remove ops)"

definition GetRequest :: "Headers option \<Rightarrow> HeaderOperations option" where
  "GetRequest x = (case x of None \<Rightarrow> None | Some h \<Rightarrow> hd_Request h)"

definition GetResponse :: "Headers option \<Rightarrow> HeaderOperations option" where
  "GetResponse x = (case x of None \<Rightarrow> None | Some h \<Rightarrow> hd_Response h)"

definition translateHeadersOperations :: "Headers option \<Rightarrow> headersOperations" where
  "translateHeadersOperations headers =
     (let req = GetRequest headers;
          resp = GetResponse headers
      in \<lparr>requestHeadersToAdd =
            translateAppendHeaders (GetSet req) False @ translateAppendHeaders (GetAdd req) True,
          responseHeadersToAdd =
            translateAppendHeaders (GetSet resp) False @ translateAppendHeaders (GetAdd resp) True,
          requestHeadersToRemove = [] @ GetRemove req,
          responseHeadersToRemove = [] @ GetRemove resp\<rparr>)"

subsection \<open>Floating-point arithmetic\<close>

text \<open>The number of binary digits of a positive integer, zero for any other.\<close>

function bitLen :: "int \<Rightarrow> int" where
  "bitLen n = (if n \<le> 0 then 0 else 1 + bitLen (n div 2))"
  by pat_completeness auto

termination bitLen
  by (relation "measure nat") auto

declare bitLen.simps [simp del]

text \<open>
  \<open>round64 m e\<close> is the binary64 number nearest to \<open>m * 2 ^ e\<close>, a tie going to the even
  significand: an arithmetic operation on floats gives its exact result rounded this way.
  The last digit kept has the weight \<open>2 ^ ulp\<close>, which leaves 53 digits to the
  significand, and fewer below the smallest normal number. A rounded result of
  \<open>2 ^ 1024\<close> or more is infinite.
\<close>

definition round64 :: "int \<Rightarrow> int \<Rightarrow> float64" where
  "round64 m e =
     (let a = \<bar>m\<bar>;
          ulp = max (e + bitLen a - 53) (- 1074);
          q = (if ulp \<le> e then a * 2 ^ nat (e - ulp)
               else (let d = a div 2 ^ nat (ulp - e);
                         r = a mod 2 ^ nat (ulp - e);
                         half = 2 ^ nat (ulp - e - 1)
                     in if half < r \<or> (r = half \<and> odd d) then d + 1 else d))
      in if 1024 < bitLen q + ulp then (if m < 0 then NegInf else PosInf)
         else Finite (sgn m * q) ulp)"

text \<open>The conversion of an integer constant to a float, as in \<open>p.Value * 10000\<close>.\<close>

definition float64_of_int :: "int \<Rightarrow> float64" where
  "float64_of_int n = round64 n 0"

definition float64_neg :: "float64 \<Rightarrow> float64" where
  "float64_neg x =
     (case x of Finite m e \<Rightarrow> Finite (- m) e | PosInf \<Rightarrow> NegInf | NegInf \<Rightarrow> PosInf | NaN \<Rightarrow> NaN)"

text \<open>
  The product of two floats: the rounded exact product of two numbers; not a number when
  an operand is not a number or the operands are zero and an infinity; else the infinity
  of the sign of the product.
\<close>

fun float64_mul :: "float64 \<Rightarrow> float64 \<Rightarrow> float64" where
  "float64_mul (Finite m e) (Finite n f) = round64 (m * n) (e + f)"
| "float64_mul NaN y = NaN"
| "float64_mul x NaN = NaN"
| "float64_mul (Finite m e) y = (if m = 0 then NaN else if 0 < m then y else float64_neg y)"
| "float64_mul x (Finite n f) = (if n = 0 then NaN else if 0 < n then x else float64_neg x)"
| "float64_mul x y = (if x = y then PosInf else NegInf)"

text \<open>The comparison \<open>x < y\<close> of two floats, false when one of them is not a number.\<close>

fun float64_less :: "float64 \<Rightarrow> float64 \<Rightarrow> bool" where
  "float64_less (Finite m e) (Finite n f) =
     (let c = min e f in m * 2 ^ nat (e - c) < n * 2 ^ nat (f - c))"
| "float64_less NaN y = False"
| "float64_less x NaN = False"
| "float64_less x PosInf = (x \<noteq> PosInf)"
| "float64_less NegInf y = (y \<noteq> NegInf)"
| "float64_less x y = False"

text \<open>
  The conversion \<open>uint32(x)\<close> of a float drops its fraction. For a float whose integer
  part \<open>uint32\<close> cannot represent, and for an infinity and for what is not a number, the
  language leaves the result to the implementation: it is \<open>conv x\<close>, with \<open>conv\<close> a
  parameter of every function that converts.
\<close>

definition float64_to_uint32 :: "(float64 \<Rightarrow> 32 word) \<Rightarrow> float64 \<Rightarrow> 32 word" where
  "float64_to_uint32 conv x =
     (case x of
        Finite m e \<Rightarrow>
          (let t = (if 0 \<le> e then m * 2 ^ nat e else sgn m * (\<bar>m\<bar> div 2 ^ nat (- e)))
           in if 0 \<le> t \<and> t < 2 ^ 32 then word_of_int t else conv x)
      | _ \<Rightarrow> conv x)"

subsection \<open>Percentages, mirroring, faults\<close>

text \<open>\<open>uint32(p.Value * 10000)\<close>: the float product, then its conversion.\<close>

definition translatePercentToFractionalPercent ::
  "(float64 \<Rightarrow> 32 word) \<Rightarrow> Percent \<Rightarrow> FractionalPercent"
where
  "translatePercentToFractionalPercent conv p =
     \<lparr>Numerator = float64_to_uint32 conv (float64_mul (pc_Value p) (float64_of_int 10000)),
      Denominator = MILLION\<rparr>"

definition translateIntegerToFractionalPercent :: "32 word \<Rightarrow> FractionalPercent" where
  "translateIntegerToFractionalPercent p = \<lparr>Numerator = p, Denominator = HUNDRED\<rparr>"

definition mirrorPercent :: "(float64 \<Rightarrow> 32 word) \<Rightarrow> HTTPRoute \<Rightarrow> FractionalPercent option" where
  "mirrorPercent conv inp =
     (case h_MirrorPercentage inp of
        Some pct \<Rightarrow>
          (if float64_less (float64_of_int 0) (pc_Value pct)
           then Some (translatePercentToFractionalPercent conv pct)
           else None)
      | None \<Rightarrow>
         (case h_MirrorPercent inp of
            Some n \<Rightarrow> (if n > 0 then Some (translateIntegerToFractionalPercent n) else None)
          | None \<Rightarrow> Some (translateIntegerToFractionalPercent 100)))"

text \<open>
  \<open>translateFault\<close>. The fixed delay is carried over as it is
  (\<open>gogo.DurationToProtoDuration\<close> changes its representation only).
\<close>

definition translateFault_Delay ::
  "(float64 \<Rightarrow> 32 word) \<Rightarrow> HTTPFaultInjection_Delay \<Rightarrow> FaultDelay option"
where
  "translateFault_Delay conv d =
     (let percentage = (case fd_Percentage d of
                          Some pct \<Rightarrow> translatePercentToFractionalPercent conv pct
                        | None \<Rightarrow> translateIntegerToFractionalPercent (fd_Percent d))
      in case fd_HttpDelayType d of
           Some (Delay_FixedDelay fixed) \<Rightarrow>
             Some \<lparr>xd_Percentage = Some percentage,
                   xd_FaultDelaySecifier = Some (FaultDelay_FixedDelay fixed)\<rparr>
         | _ \<Rightarrow> None)"

definition translateFault_Abort ::
  "(float64 \<Rightarrow> 32 word) \<Rightarrow> HTTPFaultInjection_Abort \<Rightarrow> FaultAbort option"
where
  "translateFault_Abort conv a =
     (let percentage = (case fa_Percentage a of
                          Some pct \<Rightarrow> Some (translatePercentToFractionalPercent conv pct)
                        | None \<Rightarrow> None)
      in case fa_ErrorType a of
           Some (Abort_HttpStatus status) \<Rightarrow>
             Some \<lparr>xa_Percentage = percentage,
                   xa_ErrorType = Some (FaultAbort_HttpStatus status)\<rparr>
         | _ \<Rightarrow> None)"

definition translateFault ::
  "(float64 \<Rightarrow> 32 word) \<Rightarrow> HTTPFaultInjection option \<Rightarrow> HTTPFault option"
where
  "translateFault conv inp =
     (case inp of
        None \<Rightarrow> None
      | Some f \<Rightarrow>
         (let delay = (case fi_Delay f of None \<Rightarrow> None | Some d \<Rightarrow> translateFault_Delay conv d);
              abort = (case fi_Abort f of None \<Rightarrow> None | Some a \<Rightarrow> translateFault_Abort conv a)
          in if delay = None \<and> abort = None then None
             else Some \<lparr>xf_Delay = delay, xf_Abort = abort\<rparr>))"

subsection \<open>CORS policy\<close>

definition convertToExactEnvoyMatch :: "string list \<Rightarrow> StringMatcher_MatchPattern list" where
  "convertToExactEnvoyMatch inp = map StringMatcher_Exact inp"

fun convertToEnvoyMatch :: "StringMatch list \<Rightarrow> StringMatcher_MatchPattern list" where
  "convertToEnvoyMatch [] = []"
| "convertToEnvoyMatch (istioMatcher # rest) =
     (case MatchType istioMatcher of
        Some (StringMatch_Exact e) \<Rightarrow> StringMatcher_Exact e # convertToEnvoyMatch rest
      | Some (StringMatch_Prefix p) \<Rightarrow> StringMatcher_Prefix p # convertToEnvoyMatch rest
      | Some (StringMatch_Regex r) \<Rightarrow>
          StringMatcher_SafeRegex \<lparr>EngineType = regexMatcher, Regex = r\<rparr> # convertToEnvoyMatch rest
      | None \<Rightarrow> convertToEnvoyMatch rest)"

text \<open>\<open>strings.Join\<close> of the Go standard library.\<close>

fun Join :: "string list \<Rightarrow> string \<Rightarrow> string" where
  "Join [] sep = []"
| "Join [x] sep = x"
| "Join (x # y # ys) sep = x @ sep @ Join (y # ys) sep"

text \<open>
  \<open>strconv.Itoa\<close> of the Go standard library, which is also \<open>strconv.FormatInt\<close> in
  base 10: the decimal digits, after a minus sign for a negative number.
\<close>

fun Itoa_digits :: "nat \<Rightarrow> string" where
  "Itoa_digits n =
     (if n < 10 then [''0123456789'' ! n]
      else Itoa_digits (n div 10) @ [''0123456789'' ! (n mod 10)])"

declare Itoa_digits.simps [simp del]

definition Itoa :: "int \<Rightarrow> string" where
  "Itoa i = (if i < 0 then CHR ''-'' # Itoa_digits (nat (- i)) else Itoa_digits (nat i))"

definition translateCORSPolicy :: "CorsPolicy option \<Rightarrow> route_CorsPolicy option" where
  "translateCORSPolicy inp =
     (case inp of
        None \<Rightarrow> None
      | Some c \<Rightarrow>
          Some \<lparr>co_AllowOriginStringMatch =
                  (case cp_AllowOrigins c of
                     Some origins \<Rightarrow> convertToEnvoyMatch origins
                   | None \<Rightarrow>
                      (case cp_AllowOrigin c of
                         Some origin \<Rightarrow> convertToExactEnvoyMatch origin
                       | None \<Rightarrow> [])),
                co_FilterEnabled = Some \<lparr>Numerator = 100, Denominator = HUNDRED\<rparr>,
                co_AllowCredentials = cp_AllowCredentials c,
                co_AllowHeaders = Join (cp_AllowHeaders c) '','',
                co_AllowMethods = Join (cp_AllowMethods c) '','',
                co_ExposeHeaders = Join (cp_ExposeHeaders c) '','',
                co_MaxAge = (case cp_MaxAge c of
                               None \<Rightarrow> []
                             | Some d \<Rightarrow> Itoa (Seconds d))\<rparr>)"

subsection \<open>Hash policy\<close>

text \<open>The nil-safe getters of the destination rule.\<close>

definition GetLoadBalancer :: "TrafficPolicy option \<Rightarrow> LoadBalancerSettings option" where
  "GetLoadBalancer x = (case x of None \<Rightarrow> None | Some tp \<Rightarrow> tp_LoadBalancer tp)"

definition GetPortLevelSettings :: "TrafficPolicy option \<Rightarrow> PortTrafficPolicy list" where
  "GetPortLevelSettings x = (case x of None \<Rightarrow> [] | Some tp \<Rightarrow> tp_PortLevelSettings tp)"

definition GetConsistentHash :: "LoadBalancerSettings option \<Rightarrow> ConsistentHashLB option" where
  "GetConsistentHash x = (case x of None \<Rightarrow> None | Some lb \<Rightarrow> lb_ConsistentHash lb)"

definition GetNumber :: "32 word option \<Rightarrow> 32 word" where
  "GetNumber x = (case x of None \<Rightarrow> 0 | Some n \<Rightarrow> n)"

fun portLevelSettingsConsistentHash_loop ::
  "32 word \<Rightarrow> PortTrafficPolicy list \<Rightarrow> ConsistentHashLB option"
where
  "portLevelSettingsConsistentHash_loop portNumber [] = None"
| "portLevelSettingsConsistentHash_loop portNumber (setting # rest) =
     (if GetNumber (pls_Port setting) = portNumber
      then GetConsistentHash (pls_LoadBalancer setting)
      else portLevelSettingsConsistentHash_loop portNumber rest)"

definition portLevelSettingsConsistentHash ::
  "Destination \<Rightarrow> PortTrafficPolicy list \<Rightarrow> ConsistentHashLB option"
where
  "portLevelSettingsConsistentHash dst pls =
     (case d_Port dst of
        Some portNumber \<Rightarrow> portLevelSettingsConsistentHash_loop portNumber pls
      | None \<Rightarrow> None)"

definition consistentHashToHashPolicy :: "ConsistentHashLB option \<Rightarrow> HashPolicy option" where
  "consistentHashToHashPolicy consistentHash =
     (case (case consistentHash of None \<Rightarrow> None | Some ch \<Rightarrow> ch_HashKey ch) of
        Some (ConsistentHashLB_HttpHeaderName name) \<Rightarrow> Some (HashPolicy_Header name)
      | Some (ConsistentHashLB_HttpCookie cookie) \<Rightarrow>
          (case cookie of
             None \<Rightarrow> Some (HashPolicy_Cookie [] None [])
           | Some c \<Rightarrow> Some (HashPolicy_Cookie (ck_Name c) (ck_Ttl c) (ck_Path c)))
      | Some (ConsistentHashLB_UseSourceIp b) \<Rightarrow> Some (HashPolicy_ConnectionProperties b)
      | Some (ConsistentHashLB_HttpQueryParameterName name) \<Rightarrow>
          Some (HashPolicy_QueryParameter name)
      | None \<Rightarrow> None)"

text \<open>The first subset of the given name, with its hash and its port-level hash.\<close>

fun getHashPolicy_subsets ::
  "Destination \<Rightarrow> Subset list \<Rightarrow> ConsistentHashLB option \<times> ConsistentHashLB option"
where
  "getHashPolicy_subsets destination [] = (None, None)"
| "getHashPolicy_subsets destination (sub # rest) =
     (if ss_Name sub = d_Subset destination
      then (GetConsistentHash (GetLoadBalancer (ss_TrafficPolicy sub)),
            portLevelSettingsConsistentHash destination
              (GetPortLevelSettings (ss_TrafficPolicy sub)))
      else getHashPolicy_subsets destination rest)"

definition getHashPolicy ::
  "PushContext option \<Rightarrow> Proxy \<Rightarrow> HTTPRouteDestination \<Rightarrow> string \<Rightarrow> HashPolicy option"
where
  "getHashPolicy push node dst configNamespace =
     (case push of
        None \<Rightarrow> None
      | Some p \<Rightarrow>
         (let destination = rd_Destination dst
          in case pc_DestinationRule p node (d_Host destination) configNamespace of
               None \<Rightarrow> None
             | Some rule \<Rightarrow>
                (let consistentHash = GetConsistentHash (GetLoadBalancer (dr_TrafficPolicy rule));
                     portLevelSettings = GetPortLevelSettings (dr_TrafficPolicy rule);
                     plsHash = portLevelSettingsConsistentHash destination portLevelSettings;
                     (subsetHash, subsetPLSHash) =
                       getHashPolicy_subsets destination (dr_Subsets rule)
                 in consistentHashToHashPolicy
                      (if subsetPLSHash \<noteq> None then subsetPLSHash
                       else if subsetHash \<noteq> None then subsetHash
                       else if plsHash \<noteq> None then plsHash
                       else consistentHash))))"

subsection \<open>Trace label\<close>

text \<open>The nil-safe getters \<open>GetRoute\<close> and \<open>GetCluster\<close>: the single cluster of a forward action.\<close>

definition GetRoute :: "Route \<Rightarrow> RouteAction option" where
  "GetRoute r = (case r_Action r of Some (Route_Route a) \<Rightarrow> Some a | _ \<Rightarrow> None)"

definition GetCluster :: "RouteAction option \<Rightarrow> SubsetKey option" where
  "GetCluster x =
     (case x of
        None \<Rightarrow> None
      | Some a \<Rightarrow>
         (case ra_ClusterSpecifier a of Some (RouteAction_Cluster c) \<Rightarrow> Some c | _ \<Rightarrow> None))"

text \<open>
  Modelled from the spec: \<open>model.IsValidSubsetKey\<close> and \<open>model.ParseSubsetKey\<close> (package
  \<open>model\<close>, not among these sources), the decoder of a cluster identifier, which fails
  cleanly on a malformed string and returns the exact tuple of an encoded one. The name of
  no cluster (the empty string that \<open>GetCluster\<close> returns) is malformed; an identifier
  made by \<open>BuildSubsetKey\<close> decodes to its tuple.
\<close>

definition ParseSubsetKey ::
  "SubsetKey option \<Rightarrow> (TrafficDirection \<times> string \<times> string \<times> int) option"
where
  "ParseSubsetKey c =
     (case c of
        None \<Rightarrow> None
      | Some k \<Rightarrow> Some (sk_direction k, sk_subsetName k, sk_hostname k, sk_port k))"

definition IsValidSubsetKey :: "SubsetKey option \<Rightarrow> bool" where
  "IsValidSubsetKey c = (ParseSubsetKey c \<noteq> None)"

definition getRouteOperation :: "Route \<Rightarrow> string \<Rightarrow> int \<Rightarrow> string" where
  "getRouteOperation inp vsName port =
     (let path = (case rm_PathSpecifier (r_Match inp) of
                    None \<Rightarrow> ''/*''
                  | Some (RouteMatch_Prefix p) \<Rightarrow> p @ ''*''
                  | Some (RouteMatch_Path p) \<Rightarrow> p
                  | Some (RouteMatch_SafeRegex re) \<Rightarrow>
                      (case re of None \<Rightarrow> [] | Some x \<Rightarrow> Regex x));
          c = GetCluster (GetRoute inp)
      in if IsValidSubsetKey c
         then (case ParseSubsetKey c of
                 Some (_, _, h, p) \<Rightarrow> h @ '':'' @ Itoa p @ path
               | None \<Rightarrow> vsName @ '':'' @ Itoa port @ path)
         else vsName @ '':'' @ Itoa port @ path)"

subsection \<open>\<open>translateRoute\<close>\<close>

text \<open>The redirect branch: the status code comes from a closed list, any other code leaves a nil action.\<close>

definition translateRoute_redirect :: "HTTPRedirect \<Rightarrow> RedirectAction option" where
  "translateRoute_redirect redirect =
     (let action = \<lparr>HostRedirect = rdr_Authority redirect, PathRedirect = rdr_Uri redirect,
                    ResponseCode = MOVED_PERMANENTLY\<rparr>;
          code = rdr_RedirectCode redirect
      in if code = 0 \<or> code = 301 then Some (action\<lparr>ResponseCode := MOVED_PERMANENTLY\<rparr>)
         else if code = 302 then Some (action\<lparr>ResponseCode := FOUND\<rparr>)
         else if code = 303 then Some (action\<lparr>ResponseCode := SEE_OTHER\<rparr>)
         else if code = 307 then Some (action\<lparr>ResponseCode := TEMPORARY_REDIRECT\<rparr>)
         else if code = 308 then Some (action\<lparr>ResponseCode := PERMANENT_REDIRECT\<rparr>)
         else None)"

text \<open>
  The loop over the destinations of the rule, with the two lists it appends to: the list
  \<open>weighted\<close> and the hash policies of the action. A destination of weight zero is
  skipped, unless the rule declares one destination only.
\<close>

fun translateRoute_destinations ::
  "PushContext option \<Rightarrow> Proxy \<Rightarrow> HTTPRoute \<Rightarrow> ServiceRegistry \<Rightarrow> int
     \<Rightarrow> HTTPRouteDestination list \<Rightarrow> ClusterWeight list \<times> HashPolicy list
     \<Rightarrow> ClusterWeight list \<times> HashPolicy list"
where
  "translateRoute_destinations push node inp serviceRegistry port [] (weighted, hashPolicies) =
     (weighted, hashPolicies)"
| "translateRoute_destinations push node inp serviceRegistry port (dst # rest)
     (weighted, hashPolicies) =
     (if rd_Weight dst = 0 \<and> length (h_Route inp) \<noteq> 1
      then translateRoute_destinations push node inp serviceRegistry port rest
             (weighted, hashPolicies)
      else
        (let weight = (if rd_Weight dst = 0 then 100 else rd_Weight dst);
             operations = translateHeadersOperations (rd_Headers dst);
             hostname = d_Host (rd_Destination dst);
             n = GetDestinationCluster (rd_Destination dst) (serviceRegistry hostname) port;
             clusterWeight =
               \<lparr>cw_Name = n, cw_Weight = weight,
                cw_RequestHeadersToAdd = requestHeadersToAdd operations,
                cw_RequestHeadersToRemove = requestHeadersToRemove operations,
                cw_ResponseHeadersToAdd = responseHeadersToAdd operations,
                cw_ResponseHeadersToRemove = responseHeadersToRemove operations\<rparr>;
             configNamespace = (case serviceRegistry hostname of
                                  None \<Rightarrow> []
                                | Some svc \<Rightarrow> s_Namespace svc);
             hashPolicy = getHashPolicy push node dst configNamespace
         in translateRoute_destinations push node inp serviceRegistry port rest
              (weighted @ [clusterWeight],
               (case hashPolicy of
                  None \<Rightarrow> hashPolicies
                | Some hp \<Rightarrow> hashPolicies @ [hp]))))"

text \<open>
  The forward branch: CORS, retries, timeout, rewrite, mirror, the destinations, and the
  collapse to one cluster. The default timeout \<open>features.DefaultRequestTimeout\<close> is a
  variable of a package outside these sources and a parameter here.
\<close>

definition translateRoute_forward ::
  "(float64 \<Rightarrow> 32 word) \<Rightarrow> Duration option \<Rightarrow> PushContext option \<Rightarrow> Proxy \<Rightarrow> HTTPRoute \<Rightarrow> ServiceRegistry \<Rightarrow> int
     \<Rightarrow> Route \<Rightarrow> Route"
where
  "translateRoute_forward conv DefaultRequestTimeout push node inp serviceRegistry port out =
     (let d = (case h_Timeout inp of
                 Some t \<Rightarrow> Some t
               | None \<Rightarrow> DefaultRequestTimeout);
          action0 = \<lparr>ra_ClusterSpecifier = None,
                     ra_Cors = translateCORSPolicy (h_CorsPolicy inp),
                     ra_RetryPolicy = h_Retries inp,
                     ra_Timeout = d,
                     ra_MaxGrpcTimeout = d,
                     ra_PrefixRewrite = [],
                     ra_HostRewriteLiteral = None,
                     ra_RequestMirrorPolicies = [],
                     ra_HashPolicy = []\<rparr>;
          action1 = (case h_Rewrite inp of
                       None \<Rightarrow> action0
                     | Some rewrite \<Rightarrow>
                         action0\<lparr>ra_PrefixRewrite := rw_Uri rewrite,
                                 ra_HostRewriteLiteral := Some (rw_Authority rewrite)\<rparr>);
          action2 = (case h_Mirror inp of
                       None \<Rightarrow> action1
                     | Some mirror \<Rightarrow>
                        (case mirrorPercent conv inp of
                           None \<Rightarrow> action1
                         | Some mp \<Rightarrow>
                             action1\<lparr>ra_RequestMirrorPolicies :=
                               [\<lparr>mp_Cluster = GetDestinationCluster mirror
                                                (serviceRegistry (d_Host mirror)) port,
                                 mp_RuntimeFraction = mp,
                                 mp_TraceSampled = False\<rparr>]\<rparr>));
          (weighted, hashPolicies) =
            translateRoute_destinations push node inp serviceRegistry port (h_Route inp) ([], []);
          action3 = action2\<lparr>ra_HashPolicy := hashPolicies\<rparr>
      in if length weighted = 1
         then out\<lparr>r_Action :=
                     Some (Route_Route
                       (action3\<lparr>ra_ClusterSpecifier :=
                                  Some (RouteAction_Cluster (cw_Name (hd weighted)))\<rparr>)),
                   r_RequestHeadersToAdd :=
                     r_RequestHeadersToAdd out @ cw_RequestHeadersToAdd (hd weighted),
                   r_RequestHeadersToRemove :=
                     r_RequestHeadersToRemove out @ cw_RequestHeadersToRemove (hd weighted),
                   r_ResponseHeadersToAdd :=
                     r_ResponseHeadersToAdd out @ cw_ResponseHeadersToAdd (hd weighted),
                   r_ResponseHeadersToRemove :=
                     r_ResponseHeadersToRemove out @ cw_ResponseHeadersToRemove (hd weighted)\<rparr>
         else out\<lparr>r_Action :=
                     Some (Route_Route
                       (action3\<lparr>ra_ClusterSpecifier :=
                                  Some (RouteAction_WeightedClusters weighted)\<rparr>))\<rparr>)"

definition translateRoute ::
  "(float64 \<Rightarrow> 32 word) \<Rightarrow> Duration option \<Rightarrow> PushContext option \<Rightarrow> Proxy \<Rightarrow> HTTPRoute \<Rightarrow> HTTPMatchRequest option \<Rightarrow> int
     \<Rightarrow> Config \<Rightarrow> ServiceRegistry \<Rightarrow> (string \<Rightarrow> bool) \<Rightarrow> Route option"
where
  "translateRoute conv DefaultRequestTimeout push node inp match port virtualService serviceRegistry
     gatewayNames =
     (if \<not> sourceMatchHTTP match [nm_Labels (Metadata node)] gatewayNames
             (nm_Namespace (Metadata node))
      then None
      else if (case match of
                 None \<Rightarrow> False
               | Some m \<Rightarrow> m_Port m \<noteq> 0 \<and> m_Port m \<noteq> word_of_int port)
      then None
      else
        (let routeName = (case match of
                            None \<Rightarrow> h_Name inp
                          | Some m \<Rightarrow>
                              (if m_Name m \<noteq> [] then h_Name inp @ ''.'' @ m_Name m
                               else h_Name inp));
             operations = translateHeadersOperations (h_Headers inp);
             out0 = \<lparr>r_Match = translateRouteMatch match,
                     r_Metadata = Some (cfg_ConfigMeta virtualService),
                     r_Name = routeName,
                     r_RequestHeadersToAdd = requestHeadersToAdd operations,
                     r_ResponseHeadersToAdd = responseHeadersToAdd operations,
                     r_RequestHeadersToRemove = requestHeadersToRemove operations,
                     r_ResponseHeadersToRemove = responseHeadersToRemove operations,
                     r_Action = None,
                     r_Decorator = None,
                     r_FaultFilterConfig = None\<rparr>;
             out1 = (case h_Redirect inp of
                       Some redirect \<Rightarrow>
                         out0\<lparr>r_Action := Some (Route_Redirect (translateRoute_redirect redirect))\<rparr>
                     | None \<Rightarrow>
                         translateRoute_forward conv DefaultRequestTimeout push node inp serviceRegistry
                           port out0);
             out2 = out1\<lparr>r_Decorator :=
                      Some \<lparr>Operation =
                              getRouteOperation out1 (cm_Name (cfg_ConfigMeta virtualService))
                                port\<rparr>\<rparr>
         in case h_Fault inp of
              None \<Rightarrow> Some out2
            | Some fault \<Rightarrow>
                Some (out2\<lparr>r_FaultFilterConfig := Some (translateFault conv (h_Fault inp))\<rparr>)))"

section \<open>Rule-to-route expansion\<close>

datatype error = NotAVirtualService | NoRoutesMatched

text \<open>The inner loop of \<open>BuildHTTPRoutesForVirtualService\<close>: every match block in declared order.\<close>

fun BuildHTTPRoutes_matches ::
  "(float64 \<Rightarrow> 32 word) \<Rightarrow> Duration option \<Rightarrow> PushContext option \<Rightarrow> Proxy \<Rightarrow> HTTPRoute \<Rightarrow> int \<Rightarrow> Config
     \<Rightarrow> ServiceRegistry \<Rightarrow> (string \<Rightarrow> bool) \<Rightarrow> HTTPMatchRequest list \<Rightarrow> Route list \<Rightarrow> Route list"
where
  "BuildHTTPRoutes_matches conv DefaultRequestTimeout push node http listenPort virtualService
     serviceRegistry gatewayNames [] out = out"
| "BuildHTTPRoutes_matches conv DefaultRequestTimeout push node http listenPort virtualService
     serviceRegistry gatewayNames (match # rest) out =
     (case translateRoute conv DefaultRequestTimeout push node http (Some match) listenPort
             virtualService serviceRegistry gatewayNames of
        Some r \<Rightarrow>
          BuildHTTPRoutes_matches conv DefaultRequestTimeout push node http listenPort virtualService
            serviceRegistry gatewayNames rest (out @ [r])
      | None \<Rightarrow>
          BuildHTTPRoutes_matches conv DefaultRequestTimeout push node http listenPort virtualService
            serviceRegistry gatewayNames rest out)"

text \<open>
  The outer loop over the rules, with the list \<open>out\<close> it appends to. Returning \<open>out\<close>
  without the recursive call is the \<open>break\<close> of the source.
\<close>

fun BuildHTTPRoutes_rules ::
  "(float64 \<Rightarrow> 32 word) \<Rightarrow> Duration option \<Rightarrow> PushContext option \<Rightarrow> Proxy \<Rightarrow> int \<Rightarrow> Config \<Rightarrow> ServiceRegistry
     \<Rightarrow> (string \<Rightarrow> bool) \<Rightarrow> HTTPRoute list \<Rightarrow> Route list \<Rightarrow> Route list"
where
  "BuildHTTPRoutes_rules conv DefaultRequestTimeout push node listenPort virtualService
     serviceRegistry gatewayNames [] out = out"
| "BuildHTTPRoutes_rules conv DefaultRequestTimeout push node listenPort virtualService
     serviceRegistry gatewayNames (http # rest) out =
     (if length (h_Match http) = 0
      then (case translateRoute conv DefaultRequestTimeout push node http None listenPort
                   virtualService serviceRegistry gatewayNames of
              Some r \<Rightarrow> out @ [r]
            | None \<Rightarrow> out)
      else
        (case (case catchAllMatch http of
                 None \<Rightarrow> None
               | Some match \<Rightarrow>
                   translateRoute conv DefaultRequestTimeout push node http (Some match) listenPort
                     virtualService serviceRegistry gatewayNames) of
           Some r \<Rightarrow> out @ [r]
         | None \<Rightarrow>
             BuildHTTPRoutes_rules conv DefaultRequestTimeout push node listenPort virtualService
               serviceRegistry gatewayNames rest
               (BuildHTTPRoutes_matches conv DefaultRequestTimeout push node http listenPort
                  virtualService serviceRegistry gatewayNames (h_Match http) out)))"

definition BuildHTTPRoutesForVirtualService ::
  "(float64 \<Rightarrow> 32 word) \<Rightarrow> Duration option \<Rightarrow> Proxy \<Rightarrow> PushContext option \<Rightarrow> Config \<Rightarrow> ServiceRegistry \<Rightarrow> int
     \<Rightarrow> (string \<Rightarrow> bool) \<Rightarrow> error + Route list"
where
  "BuildHTTPRoutesForVirtualService conv DefaultRequestTimeout node push virtualService
     serviceRegistry listenPort gatewayNames =
     (case cfg_Spec virtualService of
        Spec_Other \<Rightarrow> Inl NotAVirtualService
      | Spec_VirtualService vs \<Rightarrow>
         (let out = BuildHTTPRoutes_rules conv DefaultRequestTimeout push node listenPort
                      virtualService serviceRegistry gatewayNames (vs_Http vs) []
          in if length out = 0 then Inl NoRoutesMatched else Inr out))"

section \<open>The route-set combiner\<close>

definition isCatchAllRoute :: "Route \<Rightarrow> bool" where
  "isCatchAllRoute r =
     (let catchall = (case rm_PathSpecifier (r_Match r) of
                        Some (RouteMatch_Prefix p) \<Rightarrow> p = ''/''
                      | Some (RouteMatch_SafeRegex re) \<Rightarrow>
                          (case re of None \<Rightarrow> [] | Some x \<Rightarrow> Regex x) = ''*''
                      | _ \<Rightarrow> False)
      in catchall \<and> length (rm_Headers (r_Match r)) = 0
           \<and> length (rm_QueryParameters (r_Match r)) = 0)"

fun CombineVHostRoutes_routes :: "Route list \<Rightarrow> Route list \<times> Route list \<Rightarrow> Route list \<times> Route list" where
  "CombineVHostRoutes_routes [] (allroutes, catchAllRoutes) = (allroutes, catchAllRoutes)"
| "CombineVHostRoutes_routes (r # rs) (allroutes, catchAllRoutes) =
     (if isCatchAllRoute r
      then CombineVHostRoutes_routes rs (allroutes, catchAllRoutes @ [r])
      else CombineVHostRoutes_routes rs (allroutes @ [r], catchAllRoutes))"

fun CombineVHostRoutes_sets :: "Route list list \<Rightarrow> Route list \<times> Route list \<Rightarrow> Route list \<times> Route list" where
  "CombineVHostRoutes_sets [] acc = acc"
| "CombineVHostRoutes_sets (routes # routeSets) acc =
     CombineVHostRoutes_sets routeSets (CombineVHostRoutes_routes routes acc)"

definition CombineVHostRoutes :: "Route list list \<Rightarrow> Route list" where
  "CombineVHostRoutes routeSets =
     (case CombineVHostRoutes_sets routeSets ([], []) of
        (allroutes, catchAllRoutes) \<Rightarrow> allroutes @ catchAllRoutes)"

section \<open>Example inputs\<close>

definition emptyMatch :: HTTPMatchRequest where
  "emptyMatch =
     \<lparr>m_Name = [], m_Uri = None, m_Scheme = None, m_Method = None, m_Authority = None,
      m_Headers = [], m_Port = 0, m_SourceLabels = [], m_Gateways = [], m_QueryParams = [],
      m_IgnoreUriCase = False, m_WithoutHeaders = [], m_SourceNamespace = []\<rparr>"

definition prefixMatch :: "string \<Rightarrow> HTTPMatchRequest" where
  "prefixMatch p = emptyMatch\<lparr>m_Uri := Some \<lparr>MatchType = Some (StringMatch_Prefix p)\<rparr>\<rparr>"

definition plainRoute :: "string \<Rightarrow> HTTPMatchRequest option \<Rightarrow> Route" where
  "plainRoute name match =
     \<lparr>r_Match = translateRouteMatch match, r_Metadata = None, r_Name = name,
      r_RequestHeadersToAdd = [], r_ResponseHeadersToAdd = [], r_RequestHeadersToRemove = [],
      r_ResponseHeadersToRemove = [], r_Action = None, r_Decorator = None,
      r_FaultFilterConfig = None\<rparr>"

definition requestHeaders ::
  "(string \<times> string) list \<Rightarrow> (string \<times> string) list \<Rightarrow> string list \<Rightarrow> Headers option"
where
  "requestHeaders s a r =
     Some \<lparr>hd_Request = Some \<lparr>ho_Set = s, ho_Add = a, ho_Remove = r\<rparr>, hd_Response = None\<rparr>"

definition devProxy :: Proxy where
  "devProxy = \<lparr>Metadata = \<lparr>nm_Labels = [(''env'', ''dev'')], nm_Namespace = ''default''\<rparr>\<rparr>"

definition meshGateway :: "string \<Rightarrow> bool" where
  "meshGateway g = (g = ''mesh'')"

definition emptyRegistry :: ServiceRegistry where
  "emptyRegistry hostname = None"

definition emptyRule :: HTTPRoute where
  "emptyRule =
     \<lparr>h_Name = [], h_Match = [], h_Route = [], h_Redirect = None, h_Rewrite = None,
      h_Timeout = None, h_Retries = None, h_Fault = None, h_Mirror = None,
      h_MirrorPercent = None, h_MirrorPercentage = None, h_CorsPolicy = None,
      h_Headers = None\<rparr>"

definition prodMatch :: HTTPMatchRequest where
  "prodMatch = emptyMatch\<lparr>m_SourceLabels := [(''env'', ''prod'')]\<rparr>"

definition destinationTo :: "string \<Rightarrow> 32 word \<Rightarrow> HTTPRouteDestination" where
  "destinationTo hostname weight =
     \<lparr>rd_Destination = \<lparr>d_Host = hostname, d_Subset = [], d_Port = None\<rparr>,
      rd_Weight = weight, rd_Headers = None\<rparr>"

text \<open>
  A rule that splits traffic evenly between two destinations, the first with header
  mutations of its own.
\<close>

definition twoDestinationsRule :: HTTPRoute where
  "twoDestinationsRule =
     emptyRule
       \<lparr>h_Route := [(destinationTo ''a'' 50)\<lparr>rd_Headers := requestHeaders [(''x'', ''1'')] [] [''y'']\<rparr>,
                   destinationTo ''b'' 50],
        h_Headers := requestHeaders [(''r'', ''0'')] [] [''q'']\<rparr>"

text \<open>Rules that mirror to the host \<open>m\<close>, and a fault with an abort that gives no percentage.\<close>

definition mirrorRule :: "32 word option \<Rightarrow> Percent option \<Rightarrow> HTTPRoute" where
  "mirrorRule percent percentage =
     emptyRule
       \<lparr>h_Route := [destinationTo ''a'' 100],
        h_Mirror := Some \<lparr>d_Host = ''m'', d_Subset = [], d_Port = None\<rparr>,
        h_MirrorPercent := percent,
        h_MirrorPercentage := percentage\<rparr>"

definition abortNoPercentage :: HTTPFaultInjection where
  "abortNoPercentage =
     \<lparr>fi_Delay = Some \<lparr>fd_Percent = 50, fd_HttpDelayType = Some (Delay_FixedDelay (Some \<lparr>Seconds = 5, Nanos = 0\<rparr>)),
                        fd_Percentage = None\<rparr>,
      fi_Abort = Some \<lparr>fa_ErrorType = Some (Abort_HttpStatus 500), fa_Percentage = None\<rparr>\<rparr>"

definition unsupportedFault :: HTTPFaultInjection where
  "unsupportedFault =
     \<lparr>fi_Delay = Some \<lparr>fd_Percent = 50, fd_HttpDelayType = Some (Delay_ExponentialDelay None),
                        fd_Percentage = None\<rparr>,
      fi_Abort = Some \<lparr>fa_ErrorType = Some (Abort_GrpcStatus ''UNAVAILABLE''),
                        fa_Percentage = Some \<lparr>pc_Value = Finite 10 0\<rparr>\<rparr>\<rparr>"

text \<open>
  Match blocks and rules for the expansion of a rule into routes: a block with the header
  predicate \<open>foo = bar\<close>, a catch-all block that asks for the source label \<open>env: prod\<close>,
  and rules over them with one destination.
\<close>

definition headerMatch :: HTTPMatchRequest where
  "headerMatch =
     emptyMatch\<lparr>m_Headers := [(''foo'', Some \<lparr>MatchType = Some (StringMatch_Exact ''bar'')\<rparr>)]\<rparr>"

definition catchAllProd :: HTTPMatchRequest where
  "catchAllProd = (prefixMatch ''/'')\<lparr>m_SourceLabels := [(''env'', ''prod'')]\<rparr>"

definition ruleWithMatches :: "HTTPMatchRequest list \<Rightarrow> HTTPRoute" where
  "ruleWithMatches ms = emptyRule\<lparr>h_Route := [destinationTo ''a'' 100], h_Match := ms\<rparr>"

definition virtualServiceOf :: "HTTPRoute list \<Rightarrow> Config" where
  "virtualServiceOf rules =
     \<lparr>cfg_ConfigMeta = \<lparr>cm_Name = ''vs'', cm_Namespace = ''default''\<rparr>,
      cfg_Spec = Spec_VirtualService \<lparr>vs_Hosts = [''a''], vs_Http = rules\<rparr>\<rparr>"

text \<open>
  The examples are compiled with no push context and no default timeout, for a virtual
  service named \<open>vs\<close>.
\<close>

definition exampleConfig :: Config where
  "exampleConfig = virtualServiceOf []"

text \<open>
  The examples convert no float that is out of the range of \<open>uint32\<close>; for the
  conversion of such a float they take an implementation that gives zero.
\<close>

definition zeroOutOfRange :: "float64 \<Rightarrow> 32 word" where
  "zeroOutOfRange x = 0"

text \<open>
  Rules for the weight filter: one destination of weight zero; a destination of weight zero
  declared before one of weight 50, both with header mutations of their own; and three
  destinations of the weights 0, 50 and 50.
\<close>

definition zeroWeightRule :: HTTPRoute where
  "zeroWeightRule = emptyRule\<lparr>h_Route := [destinationTo ''a'' 0]\<rparr>"

definition zeroAndFiftyRule :: HTTPRoute where
  "zeroAndFiftyRule =
     emptyRule
       \<lparr>h_Route := [(destinationTo ''a'' 0)\<lparr>rd_Headers := requestHeaders [(''z'', ''9'')] [] [''w'']\<rparr>,
                   (destinationTo ''b'' 50)\<lparr>rd_Headers := requestHeaders [(''x'', ''1'')] [] [''y'']\<rparr>],
        h_Headers := requestHeaders [(''r'', ''0'')] [] [''q'']\<rparr>"

definition zeroFiftyFiftyRule :: HTTPRoute where
  "zeroFiftyFiftyRule =
     emptyRule\<lparr>h_Route := [destinationTo ''a'' 0, destinationTo ''b'' 50, destinationTo ''c'' 50]\<rparr>"

text \<open>
  The float nearest to 0.3, whose product with 10000 rounds to 3000, and a rule that both
  redirects and names a mirror destination.
\<close>

definition threeTenths :: float64 where
  "threeTenths = Finite 5404319552844595 (- 54)"

definition redirectMirrorRule :: HTTPRoute where
  "redirectMirrorRule =
     (mirrorRule None None)
       \<lparr>h_Redirect := Some \<lparr>rdr_Uri = ''/new'', rdr_Authority = [], rdr_RedirectCode = 301\<rparr>\<rparr>"

text \<open>A fault with a fixed delay at the percentage 0.3 and an HTTP abort that gives no percentage.\<close>

definition delayThreeTenths :: HTTPFaultInjection where
  "delayThreeTenths =
     \<lparr>fi_Delay = Some \<lparr>fd_Percent = 50,
                        fd_HttpDelayType = Some (Delay_FixedDelay (Some \<lparr>Seconds = 5, Nanos = 0\<rparr>)),
                        fd_Percentage = Some \<lparr>pc_Value = threeTenths\<rparr>\<rparr>,
      fi_Abort = Some \<lparr>fa_ErrorType = Some (Abort_HttpStatus 500), fa_Percentage = None\<rparr>\<rparr>"

section \<open>Properties\<close>

subsection \<open>Evaluation of floats\<close>

text \<open>The number of digits of a literal.\<close>

lemma bitLen_0 [simp]: "bitLen 0 = 0"
  by (simp add: bitLen.simps)

lemma bitLen_1 [simp]: "bitLen 1 = 1"
  by (simp add: bitLen.simps [of 1] bitLen.simps [of 0])

lemma bitLen_numeral [simp]: "bitLen (numeral k) = 1 + bitLen (numeral k div 2)"
  by (subst bitLen.simps) simp

lemma bitLen_neg_numeral [simp]: "bitLen (- numeral k) = 0"
  by (simp add: bitLen.simps)

lemmas float64_defs =
  float64_of_int_def round64_def float64_to_uint32_def float64_neg_def Let_def

text \<open>
  The percentage 0.3 (its nearest float) gives 3000 millionths and the percentage 33.3 gives
  333000, the exact products 2999.99\<dots> and 332999.99\<dots> being rounded to floats before
  the fraction is dropped; the percentage 100 gives a million. A percentage as large as
  \<open>2 ^ 20\<close> is out of the range of the conversion.
\<close>

lemma translatePercentToFractionalPercent_examples:
  "translatePercentToFractionalPercent conv \<lparr>pc_Value = Finite 5404319552844595 (- 54)\<rparr> =
     \<lparr>Numerator = 3000, Denominator = MILLION\<rparr>"
  "translatePercentToFractionalPercent conv \<lparr>pc_Value = Finite 4686558362232422 (- 47)\<rparr> =
     \<lparr>Numerator = 333000, Denominator = MILLION\<rparr>"
  "translatePercentToFractionalPercent conv \<lparr>pc_Value = Finite 100 0\<rparr> =
     \<lparr>Numerator = 1000000, Denominator = MILLION\<rparr>"
  "translatePercentToFractionalPercent conv \<lparr>pc_Value = Finite 1 20\<rparr> =
     \<lparr>Numerator = conv (float64_mul (Finite 1 20) (float64_of_int 10000)),
      Denominator = MILLION\<rparr>"
  by (simp_all add: translatePercentToFractionalPercent_def float64_defs)

subsection \<open>The combiner is a stable partition\<close>

lemma CombineVHostRoutes_routes_filter:
  "CombineVHostRoutes_routes rs (a, c) =
     (a @ filter (\<lambda>r. \<not> isCatchAllRoute r) rs, c @ filter isCatchAllRoute rs)"
  by (induction rs arbitrary: a c) simp_all

lemma CombineVHostRoutes_sets_filter:
  "CombineVHostRoutes_sets rss (a, c) =
     (a @ filter (\<lambda>r. \<not> isCatchAllRoute r) (concat rss),
      c @ filter isCatchAllRoute (concat rss))"
  by (induction rss arbitrary: a c) (simp_all add: CombineVHostRoutes_routes_filter)

text \<open>
  Claim C2. For every sequence of route lists, \<open>CombineVHostRoutes\<close> returns the routes
  of the concatenated input that are not catch-all, in their input order, followed by the
  catch-all routes of the concatenated input, in their input order. So every route that is
  not catch-all precedes every catch-all route, and neither group is reordered.
\<close>

theorem CombineVHostRoutes_stable_partition:
  "CombineVHostRoutes routeSets =
     filter (\<lambda>r. \<not> isCatchAllRoute r) (concat routeSets)
       @ filter isCatchAllRoute (concat routeSets)"
  by (simp add: CombineVHostRoutes_def CombineVHostRoutes_sets_filter)

text \<open>
  The example of the specification: \<open>A\<close> and \<open>C\<close> match a path prefix, \<open>B\<close> is
  catch-all; combining \<open>[A, B]\<close> and \<open>[C]\<close> gives \<open>[A, C, B]\<close>.
\<close>

lemma CombineVHostRoutes_example:
  "CombineVHostRoutes
     [[plainRoute ''A'' (Some (prefixMatch ''/a'')), plainRoute ''B'' None],
      [plainRoute ''C'' (Some (prefixMatch ''/c''))]] =
   [plainRoute ''A'' (Some (prefixMatch ''/a'')), plainRoute ''C'' (Some (prefixMatch ''/c'')),
    plainRoute ''B'' None]"
  by (simp add: CombineVHostRoutes_def isCatchAllRoute_def plainRoute_def prefixMatch_def
        emptyMatch_def translateRouteMatch_def sortStable_def)

subsection \<open>An absent header predicate\<close>

text \<open>
  Claim C10. For every header name, the translation of an absent (nil) header predicate
  is the matcher "header present", and the translation of the wildcard regex \<open>*\<close> is the
  same matcher.
\<close>

theorem translateHeaderMatch_nil_is_present:
  "translateHeaderMatch name None =
     \<lparr>hm_Name = name, hm_HeaderMatchSpecifier = Some (HeaderMatcher_PresentMatch True),
      hm_InvertMatch = False\<rparr>
   \<and> translateHeaderMatch name (Some \<lparr>MatchType = Some (StringMatch_Regex ''*'')\<rparr>) =
     translateHeaderMatch name None"
  by (simp add: translateHeaderMatch_def)

subsection \<open>Header mutations\<close>

lemma sortStable_snoc: "sortStable lt (xs @ [x]) = insertStable lt x (sortStable lt xs)"
  by (simp add: sortStable_def)

lemma mset_insertStable: "mset (insertStable lt x ys) = add_mset x (mset ys)"
  by (induction ys) simp_all

lemma mset_sortStable: "mset (sortStable lt xs) = mset xs"
proof (induction xs rule: rev_induct)
  case Nil
  show ?case by (simp add: sortStable_def)
next
  case (snoc x xs)
  then show ?case by (simp add: sortStable_snoc mset_insertStable)
qed

lemma set_insertStable: "set (insertStable lt x ys) = insert x (set ys)"
  by (induction ys) auto

lemma sorted_insertStable_key:
  "sorted (map f ys) \<Longrightarrow> sorted (map f (insertStable (\<lambda>a b. f a < f b) x ys))"
  by (induction ys) (auto simp: set_insertStable)

lemma sorted_sortStable_key: "sorted (map f (sortStable (\<lambda>a b. f a < f b) xs))"
proof (induction xs rule: rev_induct)
  case Nil
  show ?case by (simp add: sortStable_def)
next
  case (snoc x xs)
  then show ?case by (simp add: sortStable_snoc sorted_insertStable_key)
qed

text \<open>Insertion puts the new element behind the elements of the same key.\<close>

lemma filter_insertStable_key:
  "sorted (map f ys) \<Longrightarrow>
   filter (\<lambda>y. k = f y) (insertStable (\<lambda>a b. f a < f b) x ys) =
     filter (\<lambda>y. k = f y) ys @ (if k = f x then [x] else [])"
proof (induction ys)
  case Nil
  then show ?case by simp
next
  case (Cons y ys)
  show ?case
  proof (cases "f x < f y")
    case True
    with Cons.prems have "\<forall>z \<in> set (y # ys). f x < f z" by auto
    then have "k = f x \<Longrightarrow> filter (\<lambda>y. k = f y) (y # ys) = []"
      by (auto simp: filter_empty_conv)
    with True show ?thesis by auto
  next
    case False
    with Cons show ?thesis by auto
  qed
qed

lemma filter_sortStable_key:
  fixes f :: "'a \<Rightarrow> 'b::linorder"
  shows "filter (\<lambda>y. k = f y) (sortStable (\<lambda>a b. f a < f b) xs) = filter (\<lambda>y. k = f y) xs"
proof (induction xs rule: rev_induct)
  case Nil
  show ?case by (simp add: sortStable_def)
next
  case (snoc x xs)
  have "sorted (map f (sortStable (\<lambda>a b. f a < f b) xs))"
    by (rule sorted_sortStable_key)
  from filter_insertStable_key [OF this] snoc show ?case
    by (simp add: sortStable_snoc)
qed

text \<open>With a comparison of keys, \<open>sortStable\<close> is the stable sort by key of the library.\<close>

lemma sortStable_key_eq_sort_key:
  "sortStable (\<lambda>a b. f a < f b) xs = sort_key f xs"
  by (rule sym, rule properties_for_sort_key)
     (simp_all add: mset_sortStable filter_sortStable_key sorted_sortStable_key)

lemma insertStable_map:
  "(\<And>a b. lt' (g a) (g b) = lt a b) \<Longrightarrow>
   insertStable lt' (g x) (map g ys) = map g (insertStable lt x ys)"
  by (induction ys) simp_all

lemma sortStable_map:
  assumes "\<And>a b. lt' (g a) (g b) = lt a b"
  shows "sortStable lt' (map g xs) = map g (sortStable lt xs)"
proof (induction xs rule: rev_induct)
  case Nil
  show ?case by (simp add: sortStable_def)
next
  case (snoc x xs)
  have "insertStable lt' (g x) (map g ys) = map g (insertStable lt x ys)" for ys
    by (rule insertStable_map) (rule assms)
  with snoc show ?case by (simp add: sortStable_snoc)
qed

lemma Less_headerValueOption:
  "Less (headerValueOption f a) (headerValueOption f' b) = (fst a < fst b)"
  by (simp add: Less_def headerValueOption_def)

lemma translateAppendHeaders_sort_key:
  "translateAppendHeaders headers appendFlag =
     map (headerValueOption appendFlag) (sort_key fst headers)"
proof (cases headers)
  case Nil
  then show ?thesis by (simp add: translateAppendHeaders_def)
next
  case (Cons h hs)
  have "sortStable Less (map (headerValueOption appendFlag) headers) =
          map (headerValueOption appendFlag) (sortStable (\<lambda>a b. fst a < fst b) headers)"
    by (rule sortStable_map) (rule Less_headerValueOption)
  with Cons show ?thesis
    by (simp add: translateAppendHeaders_def sortStable_key_eq_sort_key)
qed

lemma insertStable_append_greater:
  "(\<And>b. b \<in> set bs \<Longrightarrow> lt x b) \<Longrightarrow>
   insertStable lt x (as @ bs) = insertStable lt x as @ bs"
proof (induction as)
  case Nil
  then show ?case by (cases bs) simp_all
next
  case (Cons a as)
  then show ?case by simp
qed

lemma insertStable_never_less:
  "(\<And>y. \<not> lt x y) \<Longrightarrow> insertStable lt x ys = ys @ [x]"
  by (induction ys) simp_all

lemma Less_hasKey: "Less a b \<Longrightarrow> hasKey a"
  by (auto simp: Less_def hasKey_def split: option.splits)

lemma Less_no_key: "hasKey a \<Longrightarrow> \<not> hasKey b \<Longrightarrow> Less a b"
  by (auto simp: Less_def hasKey_def split: option.splits)

text \<open>Under \<open>Less\<close> the entries with no key go last, in their input order.\<close>

lemma sortStable_Less_missing_last:
  "sortStable Less xs = sortStable Less (filter hasKey xs) @ filter (\<lambda>b. \<not> hasKey b) xs"
proof (induction xs rule: rev_induct)
  case Nil
  show ?case by (simp add: sortStable_def)
next
  case (snoc x xs)
  show ?case
  proof (cases "hasKey x")
    case True
    then have "insertStable Less x (sortStable Less (filter hasKey xs) @ filter (\<lambda>b. \<not> hasKey b) xs)
       = insertStable Less x (sortStable Less (filter hasKey xs)) @ filter (\<lambda>b. \<not> hasKey b) xs"
      by (intro insertStable_append_greater) (simp add: Less_no_key)
    with True snoc show ?thesis by (simp add: sortStable_snoc)
  next
    case False
    then have "\<And>y. \<not> Less x y" using Less_hasKey by blast
    then have "insertStable Less x ys = ys @ [x]" for ys
      by (rule insertStable_never_less)
    with False snoc show ?thesis by (simp add: sortStable_snoc)
  qed
qed

text \<open>Two iteration orders of one map are sorted into the same list.\<close>

lemma sort_key_fst_unique:
  fixes hs hs' :: "(string \<times> string) list"
  assumes "distinct (map fst hs)" "distinct (map fst hs')" "set hs' = set hs"
  shows "sort_key fst hs' = sort_key fst hs"
proof (rule map_sorted_distinct_set_unique [where f = fst])
  show "inj_on fst (set (sort_key fst hs') \<union> set (sort_key fst hs))"
    using assms by (simp add: distinct_map)
  show "distinct (map fst (sort_key fst hs'))" "distinct (map fst (sort_key fst hs))"
    using assms by (simp_all add: distinct_map)
qed (simp_all add: assms)

text \<open>
  Claim C4, as the code has it. Of the request headers and of the response headers alike:
  the "set" entries become add-operations with append false and the "add" entries
  add-operations with append true; each of the two lists is sorted by header key on its
  own, by a stable sort under which entries with no key go last, and the sorted "set"
  list is followed by the sorted "add" list (the concatenation is not sorted again);
  the remove lists are copied in order. Each sorted list is the same for every iteration
  order of the map it comes from.
\<close>

theorem translateHeadersOperations_sorted_parts:
  "requestHeadersToAdd (translateHeadersOperations headers) =
       map (headerValueOption False) (sort_key fst (GetSet (GetRequest headers)))
     @ map (headerValueOption True) (sort_key fst (GetAdd (GetRequest headers)))
   \<and> responseHeadersToAdd (translateHeadersOperations headers) =
       map (headerValueOption False) (sort_key fst (GetSet (GetResponse headers)))
     @ map (headerValueOption True) (sort_key fst (GetAdd (GetResponse headers)))
   \<and> requestHeadersToRemove (translateHeadersOperations headers) =
       GetRemove (GetRequest headers)
   \<and> responseHeadersToRemove (translateHeadersOperations headers) =
       GetRemove (GetResponse headers)
   \<and> (distinct (map fst hs) \<and> distinct (map fst hs') \<and> set hs' = set hs \<longrightarrow>
        translateAppendHeaders hs' appendFlag = translateAppendHeaders hs appendFlag)
   \<and> sortStable Less xs = sortStable Less (filter hasKey xs) @ filter (\<lambda>b. \<not> hasKey b) xs"
proof (intro conjI impI)
  assume "distinct (map fst hs) \<and> distinct (map fst hs') \<and> set hs' = set hs"
  then have "sort_key fst hs' = sort_key fst hs"
    by (intro sort_key_fst_unique) simp_all
  then show "translateAppendHeaders hs' appendFlag = translateAppendHeaders hs appendFlag"
    by (simp add: translateAppendHeaders_sort_key)
next
  show "sortStable Less xs = sortStable Less (filter hasKey xs) @ filter (\<lambda>b. \<not> hasKey b) xs"
    by (rule sortStable_Less_missing_last)
qed (simp_all add: translateHeadersOperations_def translateAppendHeaders_sort_key Let_def)

text \<open>
  The example of the specification: from \<open>{set: {b: 2, a: 1}, add: {c: 3}}\<close> the
  add-operations come out in the order \<open>a, b, c\<close>, and the two iteration orders of the
  "set" map give the same list.
\<close>

theorem translateHeadersOperations_sorted_parts_witness:
  "distinct (map fst [(''b'', ''2''), (''a'', ''1'')])
   \<and> distinct (map fst [(''a'', ''1''), (''b'', ''2'')])
   \<and> set [(''a'', ''1''), (''b'', ''2'')] = set [(''b'', ''2''), (''a'', ''1'')]
   \<and> translateAppendHeaders [(''a'', ''1''), (''b'', ''2'')] False =
       translateAppendHeaders [(''b'', ''2''), (''a'', ''1'')] False
   \<and> requestHeadersToAdd
        (translateHeadersOperations
           (requestHeaders [(''b'', ''2''), (''a'', ''1'')] [(''c'', ''3'')] [])) =
       [headerValueOption False (''a'', ''1''), headerValueOption False (''b'', ''2''),
        headerValueOption True (''c'', ''3'')]"
  using translateHeadersOperations_sorted_parts
          [of "requestHeaders [(''b'', ''2''), (''a'', ''1'')] [(''c'', ''3'')] []"
              "[(''b'', ''2''), (''a'', ''1'')]" "[(''a'', ''1''), (''b'', ''2'')]" False "[]"]
  by (simp add: requestHeaders_def GetRequest_def GetSet_def GetAdd_def insert_commute)

text \<open>
  Claim C4, as stated, asks for the concatenation of the two lists to be sorted by key.
  From \<open>{set: {b: 2}, add: {a: 1}}\<close> the code gives the order \<open>b, a\<close>, while the
  stable sort of the concatenation is \<open>a, b\<close>.
\<close>

theorem translateHeadersOperations_counterexample:
  "requestHeadersToAdd
     (translateHeadersOperations (requestHeaders [(''b'', ''2'')] [(''a'', ''1'')] [])) =
     [headerValueOption False (''b'', ''2''), headerValueOption True (''a'', ''1'')]
   \<and> sortStable Less
        (map (headerValueOption False) [(''b'', ''2'')]
           @ map (headerValueOption True) [(''a'', ''1'')]) =
     [headerValueOption True (''a'', ''1''), headerValueOption False (''b'', ''2'')]
   \<and> requestHeadersToAdd
        (translateHeadersOperations (requestHeaders [(''b'', ''2'')] [(''a'', ''1'')] [])) \<noteq>
      sortStable Less
        (map (headerValueOption False) [(''b'', ''2'')]
           @ map (headerValueOption True) [(''a'', ''1'')])"
  by (simp add: translateHeadersOperations_def translateAppendHeaders_def requestHeaders_def
        GetRequest_def GetSet_def GetAdd_def sortStable_def Less_def headerValueOption_def
        Let_def)

subsection \<open>When a match block yields no route\<close>

text \<open>For a port in the range of \<open>uint32\<close> the conversion loses nothing.\<close>

lemma uint32_port_eq:
  fixes w :: "32 word"
  assumes "0 \<le> port" "port < 2 ^ 32"
  shows "(w = word_of_int port) = (uint w = port)"
proof
  assume "w = word_of_int port"
  with assms show "uint w = port"
    by (simp add: uint_word_of_int take_bit_int_eq_self)
next
  assume "uint w = port"
  then show "w = word_of_int port" by auto
qed

lemma translateRoute_None_iff:
  "translateRoute conv DefaultRequestTimeout push node inp match port virtualService serviceRegistry
              gatewayNames = None \<longleftrightarrow>
     \<not> sourceMatchHTTP match [nm_Labels (Metadata node)] gatewayNames (nm_Namespace (Metadata node))
     \<or> (case match of None \<Rightarrow> False
         | Some m \<Rightarrow> m_Port m \<noteq> 0 \<and> m_Port m \<noteq> word_of_int port)"
  by (simp add: translateRoute_def Let_def split: option.splits)

text \<open>
  Claim C6. For a listening port in the range of \<open>uint32\<close>, the translation of a match
  block yields no route if and only if the source filter rejects the proxy or the match
  names a destination port (not zero) other than the listening port. The source filter
  rejects the proxy as follows, the gateway filter taking precedence: when the match
  lists gateways, no listed gateway is among the proxy's gateway names; when it lists
  none, the source labels or the source namespace of the match do not admit the labels and
  the namespace of the proxy.
\<close>

theorem translateRoute_fails_iff:
  assumes "0 \<le> port" and "port < 2 ^ 32"
  shows "translateRoute conv DefaultRequestTimeout push node inp (Some m) port virtualService serviceRegistry
              gatewayNames = None \<longleftrightarrow>
     (if m_Gateways m \<noteq> []
      then \<forall>g \<in> set (m_Gateways m). \<not> gatewayNames g
      else \<not> (IsSupersetOf [nm_Labels (Metadata node)] (m_SourceLabels m)
              \<and> (m_SourceNamespace m = [] \<or> m_SourceNamespace m = nm_Namespace (Metadata node))))
     \<or> (m_Port m \<noteq> 0 \<and> uint (m_Port m) \<noteq> port)"
  using assms
  by (auto simp add: translateRoute_None_iff sourceMatchHTTP_def uint32_port_eq list_ex_iff)

text \<open>
  The example of the specification: a match that requires \<open>env: prod\<close> gives no route on
  a proxy labelled \<open>env: dev\<close>, and gives one once it lists a gateway the proxy holds; a
  match for port 8080 gives no route on the listening port 80.
\<close>

theorem translateRoute_fails_iff_witness:
  "(0::int) \<le> 80 \<and> (80::int) < 2 ^ 32
   \<and> translateRoute zeroOutOfRange None None devProxy emptyRule (Some prodMatch) 80 exampleConfig emptyRegistry meshGateway = None
   \<and> translateRoute zeroOutOfRange None None devProxy emptyRule (Some (prodMatch\<lparr>m_Gateways := [''mesh'']\<rparr>)) 80 exampleConfig
        emptyRegistry meshGateway \<noteq> None
   \<and> translateRoute zeroOutOfRange None None devProxy emptyRule (Some (emptyMatch\<lparr>m_Port := 8080\<rparr>)) 80 exampleConfig
        emptyRegistry meshGateway = None"
  using translateRoute_fails_iff
          [where port = 80 and node = devProxy and inp = emptyRule and m = prodMatch
             and serviceRegistry = emptyRegistry and gatewayNames = meshGateway]
        translateRoute_fails_iff
          [where port = 80 and node = devProxy and inp = emptyRule
             and m = "prodMatch\<lparr>m_Gateways := [''mesh'']\<rparr>"
             and serviceRegistry = emptyRegistry and gatewayNames = meshGateway]
        translateRoute_fails_iff
          [where port = 80 and node = devProxy and inp = emptyRule
             and m = "emptyMatch\<lparr>m_Port := 8080\<rparr>"
             and serviceRegistry = emptyRegistry and gatewayNames = meshGateway]
  by (simp add: devProxy_def prodMatch_def emptyMatch_def meshGateway_def IsSupersetOf_def)

subsection \<open>The compiled forward rule\<close>

text \<open>The loop over the destinations in closed form.\<close>

lemma translateRoute_weighted_closed:
  "fst (translateRoute_destinations push node inp serviceRegistry port dsts
          (weighted, hashPolicies)) =
     weighted @
     map (\<lambda>dst.
            \<lparr>cw_Name = GetDestinationCluster (rd_Destination dst)
                         (serviceRegistry (d_Host (rd_Destination dst))) port,
             cw_Weight = (if rd_Weight dst = 0 then 100 else rd_Weight dst),
             cw_RequestHeadersToAdd = requestHeadersToAdd (translateHeadersOperations (rd_Headers dst)),
             cw_RequestHeadersToRemove =
               requestHeadersToRemove (translateHeadersOperations (rd_Headers dst)),
             cw_ResponseHeadersToAdd = responseHeadersToAdd (translateHeadersOperations (rd_Headers dst)),
             cw_ResponseHeadersToRemove =
               responseHeadersToRemove (translateHeadersOperations (rd_Headers dst))\<rparr>)
         (filter (\<lambda>dst. rd_Weight dst \<noteq> 0 \<or> length (h_Route inp) = 1) dsts)"
  by (induction dsts arbitrary: weighted hashPolicies) (simp_all add: Let_def)

text \<open>The fields of a compiled forward rule come from the forward branch.\<close>

lemma translateRoute_Some_forward:
  assumes "translateRoute conv DefaultRequestTimeout push node inp match port virtualService
             serviceRegistry gatewayNames = Some r"
    and "h_Redirect inp = None"
  shows "\<exists>out0.
           r_RequestHeadersToAdd out0 = requestHeadersToAdd (translateHeadersOperations (h_Headers inp))
         \<and> r_RequestHeadersToRemove out0 =
             requestHeadersToRemove (translateHeadersOperations (h_Headers inp))
         \<and> r_ResponseHeadersToAdd out0 =
             responseHeadersToAdd (translateHeadersOperations (h_Headers inp))
         \<and> r_ResponseHeadersToRemove out0 =
             responseHeadersToRemove (translateHeadersOperations (h_Headers inp))
         \<and> r_FaultFilterConfig out0 = None
         \<and> r_Match out0 = translateRouteMatch match
         \<and> r_Action r =
             r_Action (translateRoute_forward conv DefaultRequestTimeout push node inp
                         serviceRegistry port out0)
         \<and> r_RequestHeadersToAdd r =
             r_RequestHeadersToAdd
               (translateRoute_forward conv DefaultRequestTimeout push node inp serviceRegistry
                  port out0)
         \<and> r_RequestHeadersToRemove r =
             r_RequestHeadersToRemove
               (translateRoute_forward conv DefaultRequestTimeout push node inp serviceRegistry
                  port out0)
         \<and> r_ResponseHeadersToAdd r =
             r_ResponseHeadersToAdd
               (translateRoute_forward conv DefaultRequestTimeout push node inp serviceRegistry
                  port out0)
         \<and> r_ResponseHeadersToRemove r =
             r_ResponseHeadersToRemove
               (translateRoute_forward conv DefaultRequestTimeout push node inp serviceRegistry
                  port out0)"
  using assms
  by (auto simp add: translateRoute_def Let_def split: if_splits option.splits
      intro!: exI [of _ "\<lparr>r_Match = translateRouteMatch match,
                     r_Metadata = Some (cfg_ConfigMeta virtualService),
                     r_Name = (case match of
                            None \<Rightarrow> h_Name inp
                          | Some m \<Rightarrow>
                              (if m_Name m \<noteq> [] then h_Name inp @ ''.'' @ m_Name m
                               else h_Name inp)),
                     r_RequestHeadersToAdd =
                       requestHeadersToAdd (translateHeadersOperations (h_Headers inp)),
                     r_ResponseHeadersToAdd =
                       responseHeadersToAdd (translateHeadersOperations (h_Headers inp)),
                     r_RequestHeadersToRemove =
                       requestHeadersToRemove (translateHeadersOperations (h_Headers inp)),
                     r_ResponseHeadersToRemove =
                       responseHeadersToRemove (translateHeadersOperations (h_Headers inp)),
                     r_Action = None,
                     r_Decorator = None,
                     r_FaultFilterConfig = None\<rparr>"])

text \<open>
  The action and the header lists of a compiled forward rule, from the list \<open>weighted\<close>
  of the loop.
\<close>

lemma translateRoute_forward_route:
  assumes "translateRoute conv DefaultRequestTimeout push node inp match port virtualService
             serviceRegistry gatewayNames = Some r"
    and "h_Redirect inp = None"
    and "weighted =
           fst (translateRoute_destinations push node inp serviceRegistry port (h_Route inp) ([], []))"
    and "operations = translateHeadersOperations (h_Headers inp)"
  shows "\<exists>a. r_Action r = Some (Route_Route a)
           \<and> ra_ClusterSpecifier a =
               Some (if length weighted = 1 then RouteAction_Cluster (cw_Name (hd weighted))
                     else RouteAction_WeightedClusters weighted)
           \<and> ra_RequestMirrorPolicies a =
               (case h_Mirror inp of
                  None \<Rightarrow> []
                | Some mirror \<Rightarrow>
                   (case mirrorPercent conv inp of
                      None \<Rightarrow> []
                    | Some mp \<Rightarrow>
                        [\<lparr>mp_Cluster = GetDestinationCluster mirror
                                         (serviceRegistry (d_Host mirror)) port,
                          mp_RuntimeFraction = mp, mp_TraceSampled = False\<rparr>]))"
    and "r_RequestHeadersToAdd r =
           requestHeadersToAdd operations
           @ (if length weighted = 1 then cw_RequestHeadersToAdd (hd weighted) else [])"
    and "r_RequestHeadersToRemove r =
           requestHeadersToRemove operations
           @ (if length weighted = 1 then cw_RequestHeadersToRemove (hd weighted) else [])"
    and "r_ResponseHeadersToAdd r =
           responseHeadersToAdd operations
           @ (if length weighted = 1 then cw_ResponseHeadersToAdd (hd weighted) else [])"
    and "r_ResponseHeadersToRemove r =
           responseHeadersToRemove operations
           @ (if length weighted = 1 then cw_ResponseHeadersToRemove (hd weighted) else [])"
proof -
  obtain out0 where r:
      "r_Action r =
         r_Action (translateRoute_forward conv DefaultRequestTimeout push node inp serviceRegistry
                     port out0)"
      "r_RequestHeadersToAdd r =
         r_RequestHeadersToAdd
           (translateRoute_forward conv DefaultRequestTimeout push node inp serviceRegistry port
              out0)"
      "r_RequestHeadersToRemove r =
         r_RequestHeadersToRemove
           (translateRoute_forward conv DefaultRequestTimeout push node inp serviceRegistry port
              out0)"
      "r_ResponseHeadersToAdd r =
         r_ResponseHeadersToAdd
           (translateRoute_forward conv DefaultRequestTimeout push node inp serviceRegistry port
              out0)"
      "r_ResponseHeadersToRemove r =
         r_ResponseHeadersToRemove
           (translateRoute_forward conv DefaultRequestTimeout push node inp serviceRegistry port
              out0)"
    and out0: "r_RequestHeadersToAdd out0 = requestHeadersToAdd operations"
      "r_RequestHeadersToRemove out0 = requestHeadersToRemove operations"
      "r_ResponseHeadersToAdd out0 = responseHeadersToAdd operations"
      "r_ResponseHeadersToRemove out0 = responseHeadersToRemove operations"
    using translateRoute_Some_forward [OF assms(1,2)] assms(4) by auto
  show "\<exists>a. r_Action r = Some (Route_Route a)
           \<and> ra_ClusterSpecifier a =
               Some (if length weighted = 1 then RouteAction_Cluster (cw_Name (hd weighted))
                     else RouteAction_WeightedClusters weighted)
           \<and> ra_RequestMirrorPolicies a =
               (case h_Mirror inp of
                  None \<Rightarrow> []
                | Some mirror \<Rightarrow>
                   (case mirrorPercent conv inp of
                      None \<Rightarrow> []
                    | Some mp \<Rightarrow>
                        [\<lparr>mp_Cluster = GetDestinationCluster mirror
                                         (serviceRegistry (d_Host mirror)) port,
                          mp_RuntimeFraction = mp, mp_TraceSampled = False\<rparr>]))"
    by (simp add: r assms(3) translateRoute_forward_def Let_def case_prod_beta
          split: option.splits)
  show "r_RequestHeadersToAdd r =
           requestHeadersToAdd operations
           @ (if length weighted = 1 then cw_RequestHeadersToAdd (hd weighted) else [])"
    and "r_RequestHeadersToRemove r =
           requestHeadersToRemove operations
           @ (if length weighted = 1 then cw_RequestHeadersToRemove (hd weighted) else [])"
    and "r_ResponseHeadersToAdd r =
           responseHeadersToAdd operations
           @ (if length weighted = 1 then cw_ResponseHeadersToAdd (hd weighted) else [])"
    and "r_ResponseHeadersToRemove r =
           responseHeadersToRemove operations
           @ (if length weighted = 1 then cw_ResponseHeadersToRemove (hd weighted) else [])"
    using out0
    by (simp_all add: r assms(3) translateRoute_forward_def Let_def case_prod_beta
          split: option.splits)
qed

text \<open>A rule that redirects compiles to a redirect action.\<close>

lemma translateRoute_redirect_Action:
  assumes "translateRoute conv DefaultRequestTimeout push node inp match port virtualService
             serviceRegistry gatewayNames = Some r"
    and "h_Redirect inp = Some redirect"
  shows "r_Action r = Some (Route_Redirect (translateRoute_redirect redirect))"
  using assms
  by (auto simp add: translateRoute_def Let_def split: if_splits option.splits)

text \<open>Definitions that the evaluation of the examples unfolds.\<close>

lemmas example_defs =
  emptyRule_def destinationTo_def emptyRegistry_def requestHeaders_def

lemmas headers_defs =
  translateHeadersOperations_def translateAppendHeaders_def GetRequest_def GetResponse_def
  GetSet_def GetAdd_def GetRemove_def sortStable_def

text \<open>The examples compile on the example proxy, whatever the rule, when no match block is given.\<close>

lemma translateRoute_example_Some:
  "\<exists>r. translateRoute zeroOutOfRange None None devProxy rule None 80 exampleConfig emptyRegistry
          meshGateway = Some r"
  using translateRoute_None_iff
          [of zeroOutOfRange None None devProxy rule None 80 exampleConfig emptyRegistry meshGateway]
  by (auto simp: sourceMatchHTTP_def)

subsection \<open>Destinations of weight zero\<close>

text \<open>
  Claim C3, as the code has it. Let a forward rule (one with no redirect) compile to the
  route \<open>r\<close>, and let \<open>kept\<close> be the destinations that the loop keeps: the only
  destination of the rule, whatever its weight, and else the destinations of a weight other
  than zero, in declared order. The list that the loop builds has one entry for each kept
  destination, with the weight of the destination, and with the weight 100 when the
  destination declares zero. The compiled route does not show that weight: when one
  destination is kept, the action of \<open>r\<close> names its cluster alone, with no weight; and
  when none or several are kept, the action carries them as weighted clusters with their
  declared weights, none of which is zero.
\<close>

theorem translateRoute_zero_weight:
  assumes "translateRoute conv DefaultRequestTimeout push node inp match port virtualService
             serviceRegistry gatewayNames = Some r"
    and "h_Redirect inp = None"
    and "kept = (if length (h_Route inp) = 1 then h_Route inp
                 else filter (\<lambda>dst. rd_Weight dst \<noteq> 0) (h_Route inp))"
    and "cluster = (\<lambda>dst. GetDestinationCluster (rd_Destination dst)
                            (serviceRegistry (d_Host (rd_Destination dst))) port)"
  shows "map (\<lambda>w. (cw_Name w, cw_Weight w))
           (fst (translateRoute_destinations push node inp serviceRegistry port (h_Route inp)
                   ([], []))) =
         map (\<lambda>dst. (cluster dst, if rd_Weight dst = 0 then 100 else rd_Weight dst)) kept
       \<and> (\<exists>a. r_Action r = Some (Route_Route a)
              \<and> (\<forall>dst. kept = [dst] \<longrightarrow>
                     ra_ClusterSpecifier a = Some (RouteAction_Cluster (cluster dst)))
              \<and> (length kept \<noteq> 1 \<longrightarrow>
                    (\<exists>ws. ra_ClusterSpecifier a = Some (RouteAction_WeightedClusters ws)
                        \<and> map (\<lambda>w. (cw_Name w, cw_Weight w)) ws =
                            map (\<lambda>dst. (cluster dst, rd_Weight dst)) kept
                        \<and> (0::32 word) \<notin> set (map cw_Weight ws))))"
proof -
  define weighted where
    "weighted = fst (translateRoute_destinations push node inp serviceRegistry port (h_Route inp)
                       ([], []))"
  have kept: "filter (\<lambda>dst. rd_Weight dst \<noteq> 0 \<or> length (h_Route inp) = 1) (h_Route inp) = kept"
    using assms(3) by simp
  have pairs: "map (\<lambda>w. (cw_Name w, cw_Weight w)) weighted =
               map (\<lambda>dst. (cluster dst, if rd_Weight dst = 0 then 100 else rd_Weight dst)) kept"
    unfolding weighted_def translateRoute_weighted_closed kept
    by (simp add: comp_def assms(4))
  then have "length (map (\<lambda>w. (cw_Name w, cw_Weight w)) weighted) =
             length (map (\<lambda>dst. (cluster dst, if rd_Weight dst = 0 then 100 else rd_Weight dst)) kept)"
    by (rule arg_cong)
  then have len: "length weighted = length kept" by simp
  from translateRoute_forward_route(1) [OF assms(1,2) weighted_def refl]
  obtain a where a: "r_Action r = Some (Route_Route a)"
    and spec: "ra_ClusterSpecifier a =
                 Some (if length weighted = 1 then RouteAction_Cluster (cw_Name (hd weighted))
                       else RouteAction_WeightedClusters weighted)"
    by blast
  have one: "ra_ClusterSpecifier a = Some (RouteAction_Cluster (cluster dst))"
    if "kept = [dst]" for dst
  proof -
    from that len obtain w where w: "weighted = [w]"
      by (cases weighted) simp_all
    with pairs that have "cw_Name w = cluster dst" by simp
    with spec w show ?thesis by simp
  qed
  have many: "\<exists>ws. ra_ClusterSpecifier a = Some (RouteAction_WeightedClusters ws)
                \<and> map (\<lambda>w. (cw_Name w, cw_Weight w)) ws =
                    map (\<lambda>dst. (cluster dst, rd_Weight dst)) kept
                \<and> (0::32 word) \<notin> set (map cw_Weight ws)"
    if "length kept \<noteq> 1"
  proof -
    from that assms(3) have "length (h_Route inp) \<noteq> 1"
      by (auto split: if_splits)
    with assms(3) have nz: "\<And>dst. dst \<in> set kept \<Longrightarrow> rd_Weight dst \<noteq> 0"
      by simp
    then have eq: "map (\<lambda>dst. (cluster dst, if rd_Weight dst = 0 then 100 else rd_Weight dst)) kept =
               map (\<lambda>dst. (cluster dst, rd_Weight dst)) kept"
      by simp
    have "map cw_Weight weighted = map snd (map (\<lambda>w. (cw_Name w, cw_Weight w)) weighted)"
      by (simp add: comp_def)
    also have "\<dots> = map rd_Weight kept"
      by (simp only: pairs eq) (simp add: comp_def)
    finally have "(0::32 word) \<notin> set (map cw_Weight weighted)"
      using nz by auto
    with spec that len pairs eq show ?thesis by simp
  qed
  from pairs a one many show ?thesis
    unfolding weighted_def by blast
qed

text \<open>
  The examples of the specification on compiled routes: the destinations of the weights 0
  and 50 compile to one route to the single cluster of the second; a destination of
  weight 0 with two of weight 50 compiles to the weighted clusters of these two.
\<close>

theorem translateRoute_zero_weight_witness:
  "h_Redirect zeroAndFiftyRule = None \<and> h_Redirect zeroFiftyFiftyRule = None
   \<and> (\<exists>r a. translateRoute zeroOutOfRange None None devProxy zeroAndFiftyRule None 80 exampleConfig
               emptyRegistry meshGateway = Some r
            \<and> r_Action r = Some (Route_Route a)
            \<and> ra_ClusterSpecifier a =
                Some (RouteAction_Cluster (BuildSubsetKey TrafficDirectionOutbound [] ''b'' 80)))
   \<and> (\<exists>r a ws. translateRoute zeroOutOfRange None None devProxy zeroFiftyFiftyRule None 80
                  exampleConfig emptyRegistry meshGateway = Some r
            \<and> r_Action r = Some (Route_Route a)
            \<and> ra_ClusterSpecifier a = Some (RouteAction_WeightedClusters ws)
            \<and> map (\<lambda>w. (cw_Name w, cw_Weight w)) ws =
                [(BuildSubsetKey TrafficDirectionOutbound [] ''b'' 80, 50),
                 (BuildSubsetKey TrafficDirectionOutbound [] ''c'' 80, 50)])"
proof (intro conjI)
  show "h_Redirect zeroAndFiftyRule = None" "h_Redirect zeroFiftyFiftyRule = None"
    by (simp_all add: example_defs zeroWeightRule_def zeroAndFiftyRule_def zeroFiftyFiftyRule_def)
next
  obtain r where r: "translateRoute zeroOutOfRange None None devProxy zeroAndFiftyRule None 80
                       exampleConfig emptyRegistry meshGateway = Some r"
    using translateRoute_example_Some by blast
  have "h_Redirect zeroAndFiftyRule = None" by (simp add: example_defs zeroWeightRule_def zeroAndFiftyRule_def zeroFiftyFiftyRule_def)
  from translateRoute_zero_weight [OF r this refl refl]
  obtain a where "r_Action r = Some (Route_Route a)"
    and "ra_ClusterSpecifier a =
           Some (RouteAction_Cluster (BuildSubsetKey TrafficDirectionOutbound [] ''b'' 80))"
    by (auto simp add: example_defs zeroWeightRule_def zeroAndFiftyRule_def zeroFiftyFiftyRule_def GetDestinationCluster_def)
  with r show "\<exists>r a. translateRoute zeroOutOfRange None None devProxy zeroAndFiftyRule None 80
                        exampleConfig emptyRegistry meshGateway = Some r
            \<and> r_Action r = Some (Route_Route a)
            \<and> ra_ClusterSpecifier a =
                Some (RouteAction_Cluster (BuildSubsetKey TrafficDirectionOutbound [] ''b'' 80))"
    by blast
next
  obtain r where r: "translateRoute zeroOutOfRange None None devProxy zeroFiftyFiftyRule None 80
                       exampleConfig emptyRegistry meshGateway = Some r"
    using translateRoute_example_Some by blast
  have "h_Redirect zeroFiftyFiftyRule = None" by (simp add: example_defs zeroWeightRule_def zeroAndFiftyRule_def zeroFiftyFiftyRule_def)
  from translateRoute_zero_weight [OF r this refl refl]
  obtain a ws where "r_Action r = Some (Route_Route a)"
    and "ra_ClusterSpecifier a = Some (RouteAction_WeightedClusters ws)"
    and "map (\<lambda>w. (cw_Name w, cw_Weight w)) ws =
                [(BuildSubsetKey TrafficDirectionOutbound [] ''b'' 80, 50),
                 (BuildSubsetKey TrafficDirectionOutbound [] ''c'' 80, 50)]"
    by (auto simp add: example_defs zeroWeightRule_def zeroAndFiftyRule_def zeroFiftyFiftyRule_def GetDestinationCluster_def)
  with r show "\<exists>r a ws. translateRoute zeroOutOfRange None None devProxy zeroFiftyFiftyRule None 80
                  exampleConfig emptyRegistry meshGateway = Some r
            \<and> r_Action r = Some (Route_Route a)
            \<and> ra_ClusterSpecifier a = Some (RouteAction_WeightedClusters ws)
            \<and> map (\<lambda>w. (cw_Name w, cw_Weight w)) ws =
                [(BuildSubsetKey TrafficDirectionOutbound [] ''b'' 80, 50),
                 (BuildSubsetKey TrafficDirectionOutbound [] ''c'' 80, 50)]"
    by - (intro exI [of _ r] exI [of _ a] exI [of _ ws], simp)
qed

text \<open>
  Claim C3, as stated, has a single destination of declared weight 0 compile to the weight
  100. The route compiled from it has a forward action to the single cluster of the
  destination and nothing else: no weighted cluster and no weight.
\<close>

theorem translateRoute_zero_weight_counterexample:
  "map_option r_Action
     (translateRoute zeroOutOfRange None None devProxy zeroWeightRule None 80 exampleConfig
        emptyRegistry meshGateway) =
   Some (Some (Route_Route
     \<lparr>ra_ClusterSpecifier =
        Some (RouteAction_Cluster (BuildSubsetKey TrafficDirectionOutbound [] ''a'' 80)),
      ra_Cors = None, ra_RetryPolicy = None, ra_Timeout = None, ra_MaxGrpcTimeout = None,
      ra_PrefixRewrite = [], ra_HostRewriteLiteral = None, ra_RequestMirrorPolicies = [],
      ra_HashPolicy = []\<rparr>))"
  by (simp add: translateRoute_def translateRoute_forward_def sourceMatchHTTP_def Let_def
        example_defs zeroWeightRule_def zeroAndFiftyRule_def zeroFiftyFiftyRule_def GetDestinationCluster_def getHashPolicy_def translateCORSPolicy_def)

subsection \<open>One cluster or a weighted list\<close>

text \<open>
  Claim C7. Let a forward rule (one with no redirect) compile to the route \<open>r\<close>, and let
  \<open>survivors\<close> be the destinations of the rule that survive the weight filter (those of
  a weight other than zero, and the only destination of a rule), in declared order. If
  exactly one destination survives, the action of \<open>r\<close> names the single cluster of that
  destination, and the four header lists of \<open>r\<close> are those of the rule followed by
  those of that destination. If two or more survive (and also if none does), the action of
  \<open>r\<close> carries a weighted-cluster list with one entry for each survivor, every entry
  with the cluster and the four header lists of its own destination, and the header lists
  of \<open>r\<close> are those of the rule alone.
\<close>

theorem translateRoute_single_or_weighted:
  assumes "translateRoute conv DefaultRequestTimeout push node inp match port virtualService
             serviceRegistry gatewayNames = Some r"
    and "h_Redirect inp = None"
    and "survivors =
           filter (\<lambda>dst. rd_Weight dst \<noteq> 0 \<or> length (h_Route inp) = 1) (h_Route inp)"
    and "operations = translateHeadersOperations (h_Headers inp)"
    and "cluster = (\<lambda>dst. GetDestinationCluster (rd_Destination dst)
                            (serviceRegistry (d_Host (rd_Destination dst))) port)"
  shows "(\<forall>dst. survivors = [dst] \<longrightarrow>
            (\<exists>a. r_Action r = Some (Route_Route a)
                 \<and> ra_ClusterSpecifier a = Some (RouteAction_Cluster (cluster dst)))
          \<and> r_RequestHeadersToAdd r =
              requestHeadersToAdd operations
              @ requestHeadersToAdd (translateHeadersOperations (rd_Headers dst))
          \<and> r_RequestHeadersToRemove r =
              requestHeadersToRemove operations
              @ requestHeadersToRemove (translateHeadersOperations (rd_Headers dst))
          \<and> r_ResponseHeadersToAdd r =
              responseHeadersToAdd operations
              @ responseHeadersToAdd (translateHeadersOperations (rd_Headers dst))
          \<and> r_ResponseHeadersToRemove r =
              responseHeadersToRemove operations
              @ responseHeadersToRemove (translateHeadersOperations (rd_Headers dst)))
       \<and> (length survivors \<noteq> 1 \<longrightarrow>
            (\<exists>a ws. r_Action r = Some (Route_Route a)
                 \<and> ra_ClusterSpecifier a = Some (RouteAction_WeightedClusters ws)
                 \<and> map cw_Name ws = map cluster survivors
                 \<and> map cw_RequestHeadersToAdd ws =
                     map (\<lambda>dst. requestHeadersToAdd (translateHeadersOperations (rd_Headers dst)))
                       survivors
                 \<and> map cw_RequestHeadersToRemove ws =
                     map (\<lambda>dst. requestHeadersToRemove (translateHeadersOperations (rd_Headers dst)))
                       survivors
                 \<and> map cw_ResponseHeadersToAdd ws =
                     map (\<lambda>dst. responseHeadersToAdd (translateHeadersOperations (rd_Headers dst)))
                       survivors
                 \<and> map cw_ResponseHeadersToRemove ws =
                     map (\<lambda>dst. responseHeadersToRemove (translateHeadersOperations (rd_Headers dst)))
                       survivors)
          \<and> r_RequestHeadersToAdd r = requestHeadersToAdd operations
          \<and> r_RequestHeadersToRemove r = requestHeadersToRemove operations
          \<and> r_ResponseHeadersToAdd r = responseHeadersToAdd operations
          \<and> r_ResponseHeadersToRemove r = responseHeadersToRemove operations)"
proof -
  define weighted where
    "weighted = fst (translateRoute_destinations push node inp serviceRegistry port (h_Route inp)
                       ([], []))"
  define entry where
    "entry = (\<lambda>dst :: HTTPRouteDestination.
            \<lparr>cw_Name = GetDestinationCluster (rd_Destination dst)
                         (serviceRegistry (d_Host (rd_Destination dst))) port,
             cw_Weight = (if rd_Weight dst = 0 then 100 else rd_Weight dst),
             cw_RequestHeadersToAdd = requestHeadersToAdd (translateHeadersOperations (rd_Headers dst)),
             cw_RequestHeadersToRemove =
               requestHeadersToRemove (translateHeadersOperations (rd_Headers dst)),
             cw_ResponseHeadersToAdd = responseHeadersToAdd (translateHeadersOperations (rd_Headers dst)),
             cw_ResponseHeadersToRemove =
               responseHeadersToRemove (translateHeadersOperations (rd_Headers dst))\<rparr>)"
  have closed: "weighted = map entry survivors"
    unfolding weighted_def translateRoute_weighted_closed assms(3) entry_def by simp
  note route = translateRoute_forward_route [OF assms(1,2) weighted_def assms(4)]
  from route(1) obtain a where a: "r_Action r = Some (Route_Route a)"
    and spec: "ra_ClusterSpecifier a =
                 Some (if length weighted = 1 then RouteAction_Cluster (cw_Name (hd weighted))
                       else RouteAction_WeightedClusters weighted)"
    by blast
  show ?thesis
  proof (intro conjI allI impI)
    fix dst
    assume "survivors = [dst]"
    then have w: "weighted = [entry dst]"
      using closed by simp
    from a spec w show "\<exists>a. r_Action r = Some (Route_Route a)
                 \<and> ra_ClusterSpecifier a = Some (RouteAction_Cluster (cluster dst))"
      by (simp add: entry_def assms(5))
    from route(2) w show "r_RequestHeadersToAdd r =
              requestHeadersToAdd operations
              @ requestHeadersToAdd (translateHeadersOperations (rd_Headers dst))"
      by (simp add: entry_def)
    from route(3) w show "r_RequestHeadersToRemove r =
              requestHeadersToRemove operations
              @ requestHeadersToRemove (translateHeadersOperations (rd_Headers dst))"
      by (simp add: entry_def)
    from route(4) w show "r_ResponseHeadersToAdd r =
              responseHeadersToAdd operations
              @ responseHeadersToAdd (translateHeadersOperations (rd_Headers dst))"
      by (simp add: entry_def)
    from route(5) w show "r_ResponseHeadersToRemove r =
              responseHeadersToRemove operations
              @ responseHeadersToRemove (translateHeadersOperations (rd_Headers dst))"
      by (simp add: entry_def)
  next
    assume "length survivors \<noteq> 1"
    then have len: "length weighted \<noteq> 1"
      using closed by simp
    have "ra_ClusterSpecifier a = Some (RouteAction_WeightedClusters weighted)"
      using spec len by simp
    moreover have "map cw_Name weighted = map cluster survivors"
      and "map cw_RequestHeadersToAdd weighted =
             map (\<lambda>dst. requestHeadersToAdd (translateHeadersOperations (rd_Headers dst))) survivors"
      and "map cw_RequestHeadersToRemove weighted =
             map (\<lambda>dst. requestHeadersToRemove (translateHeadersOperations (rd_Headers dst))) survivors"
      and "map cw_ResponseHeadersToAdd weighted =
             map (\<lambda>dst. responseHeadersToAdd (translateHeadersOperations (rd_Headers dst))) survivors"
      and "map cw_ResponseHeadersToRemove weighted =
             map (\<lambda>dst. responseHeadersToRemove (translateHeadersOperations (rd_Headers dst))) survivors"
      by (simp_all add: closed entry_def comp_def assms(5))
    ultimately show "\<exists>a ws. r_Action r = Some (Route_Route a)
                 \<and> ra_ClusterSpecifier a = Some (RouteAction_WeightedClusters ws)
                 \<and> map cw_Name ws = map cluster survivors
                 \<and> map cw_RequestHeadersToAdd ws =
                     map (\<lambda>dst. requestHeadersToAdd (translateHeadersOperations (rd_Headers dst)))
                       survivors
                 \<and> map cw_RequestHeadersToRemove ws =
                     map (\<lambda>dst. requestHeadersToRemove (translateHeadersOperations (rd_Headers dst)))
                       survivors
                 \<and> map cw_ResponseHeadersToAdd ws =
                     map (\<lambda>dst. responseHeadersToAdd (translateHeadersOperations (rd_Headers dst)))
                       survivors
                 \<and> map cw_ResponseHeadersToRemove ws =
                     map (\<lambda>dst. responseHeadersToRemove (translateHeadersOperations (rd_Headers dst)))
                       survivors"
      using a by - (intro exI [of _ a] exI [of _ weighted], simp)
    from route(2) len show "r_RequestHeadersToAdd r = requestHeadersToAdd operations" by simp
    from route(3) len show "r_RequestHeadersToRemove r = requestHeadersToRemove operations" by simp
    from route(4) len show "r_ResponseHeadersToAdd r = responseHeadersToAdd operations" by simp
    from route(5) len show "r_ResponseHeadersToRemove r = responseHeadersToRemove operations" by simp
  qed
qed

text \<open>
  Of a destination of weight 0 and one of weight 50 the second alone survives: the route
  goes to its single cluster and takes over its header mutations, not those of the
  first. A rule with two destinations of weight 50 compiles to a weighted list, whose
  entries keep the header mutations of their destinations.
\<close>

theorem translateRoute_single_or_weighted_witness:
  "h_Redirect zeroAndFiftyRule = None \<and> h_Redirect twoDestinationsRule = None
   \<and> (\<exists>r. translateRoute zeroOutOfRange None None devProxy zeroAndFiftyRule None 80 exampleConfig
             emptyRegistry meshGateway = Some r
          \<and> (\<exists>a. r_Action r = Some (Route_Route a)
                  \<and> ra_ClusterSpecifier a =
                      Some (RouteAction_Cluster (BuildSubsetKey TrafficDirectionOutbound [] ''b'' 80)))
          \<and> r_RequestHeadersToAdd r =
               [headerValueOption False (''r'', ''0''), headerValueOption False (''x'', ''1'')]
          \<and> r_RequestHeadersToRemove r = [''q'', ''y''])
   \<and> (\<exists>r. translateRoute zeroOutOfRange None None devProxy twoDestinationsRule None 80
             exampleConfig emptyRegistry meshGateway = Some r
          \<and> (\<exists>a ws. r_Action r = Some (Route_Route a)
                  \<and> ra_ClusterSpecifier a = Some (RouteAction_WeightedClusters ws)
                  \<and> map cw_Name ws =
                      [BuildSubsetKey TrafficDirectionOutbound [] ''a'' 80,
                       BuildSubsetKey TrafficDirectionOutbound [] ''b'' 80]
                  \<and> map cw_RequestHeadersToRemove ws = [[''y''], []])
          \<and> r_RequestHeadersToAdd r = [headerValueOption False (''r'', ''0'')]
          \<and> r_RequestHeadersToRemove r = [''q''])"
proof (intro conjI)
  show "h_Redirect zeroAndFiftyRule = None" "h_Redirect twoDestinationsRule = None"
    by (simp_all add: example_defs zeroAndFiftyRule_def twoDestinationsRule_def)
next
  obtain r where r: "translateRoute zeroOutOfRange None None devProxy zeroAndFiftyRule None 80
                       exampleConfig emptyRegistry meshGateway = Some r"
    using translateRoute_example_Some by blast
  have "h_Redirect zeroAndFiftyRule = None" by (simp add: example_defs zeroAndFiftyRule_def twoDestinationsRule_def)
  from translateRoute_single_or_weighted [OF r this refl refl refl]
  have "(\<exists>a. r_Action r = Some (Route_Route a)
                  \<and> ra_ClusterSpecifier a =
                      Some (RouteAction_Cluster (BuildSubsetKey TrafficDirectionOutbound [] ''b'' 80)))
          \<and> r_RequestHeadersToAdd r =
               [headerValueOption False (''r'', ''0''), headerValueOption False (''x'', ''1'')]
          \<and> r_RequestHeadersToRemove r = [''q'', ''y'']"
    by (simp add: example_defs zeroAndFiftyRule_def twoDestinationsRule_def headers_defs GetDestinationCluster_def Let_def)
  with r show "\<exists>r. translateRoute zeroOutOfRange None None devProxy zeroAndFiftyRule None 80
             exampleConfig emptyRegistry meshGateway = Some r
          \<and> (\<exists>a. r_Action r = Some (Route_Route a)
                  \<and> ra_ClusterSpecifier a =
                      Some (RouteAction_Cluster (BuildSubsetKey TrafficDirectionOutbound [] ''b'' 80)))
          \<and> r_RequestHeadersToAdd r =
               [headerValueOption False (''r'', ''0''), headerValueOption False (''x'', ''1'')]
          \<and> r_RequestHeadersToRemove r = [''q'', ''y'']"
    by simp
next
  obtain r where r: "translateRoute zeroOutOfRange None None devProxy twoDestinationsRule None 80
                       exampleConfig emptyRegistry meshGateway = Some r"
    using translateRoute_example_Some by blast
  have "h_Redirect twoDestinationsRule = None" by (simp add: example_defs zeroAndFiftyRule_def twoDestinationsRule_def)
  from translateRoute_single_or_weighted [OF r this refl refl refl]
  have "(\<exists>a ws. r_Action r = Some (Route_Route a)
                  \<and> ra_ClusterSpecifier a = Some (RouteAction_WeightedClusters ws)
                  \<and> map cw_Name ws =
                      [BuildSubsetKey TrafficDirectionOutbound [] ''a'' 80,
                       BuildSubsetKey TrafficDirectionOutbound [] ''b'' 80]
                  \<and> map cw_RequestHeadersToRemove ws = [[''y''], []])
          \<and> r_RequestHeadersToAdd r = [headerValueOption False (''r'', ''0'')]
          \<and> r_RequestHeadersToRemove r = [''q'']"
    by (auto simp add: example_defs zeroAndFiftyRule_def twoDestinationsRule_def headers_defs GetDestinationCluster_def Let_def)
  with r show "\<exists>r. translateRoute zeroOutOfRange None None devProxy twoDestinationsRule None 80
             exampleConfig emptyRegistry meshGateway = Some r
          \<and> (\<exists>a ws. r_Action r = Some (Route_Route a)
                  \<and> ra_ClusterSpecifier a = Some (RouteAction_WeightedClusters ws)
                  \<and> map cw_Name ws =
                      [BuildSubsetKey TrafficDirectionOutbound [] ''a'' 80,
                       BuildSubsetKey TrafficDirectionOutbound [] ''b'' 80]
                  \<and> map cw_RequestHeadersToRemove ws = [[''y''], []])
          \<and> r_RequestHeadersToAdd r = [headerValueOption False (''r'', ''0'')]
          \<and> r_RequestHeadersToRemove r = [''q'']"
    by simp
qed

subsection \<open>Mirroring\<close>

text \<open>
  Claim C8, as the code has it. Let a rule with a mirror destination compile to the route
  \<open>r\<close>. If the rule redirects, \<open>r\<close> has the redirect action and so no mirror policy,
  whatever percentage the rule gives. If the rule does not redirect, \<open>r\<close> has a forward
  action, and: if the rule gives \<open>MirrorPercentage\<close> with a value above zero, the action
  has one mirror policy to the cluster of the mirror destination, at \<open>uint32(value * 10000)\<close>
  millionths (the float product, its fraction dropped); if it gives \<open>MirrorPercentage\<close>
  with a value that is not above zero, the action has no mirror policy; both whatever the
  legacy field \<open>MirrorPercent\<close> holds, so the newer field takes precedence. If the rule
  gives only \<open>MirrorPercent\<close>, the action has the mirror policy at that many hundredths
  when it is above zero and no mirror policy when it is zero. If the rule gives neither, the
  action has the mirror policy at 100 hundredths.
\<close>

theorem translateRoute_mirror_percent:
  assumes "translateRoute conv DefaultRequestTimeout push node inp match port virtualService
             serviceRegistry gatewayNames = Some r"
    and "h_Mirror inp = Some mirror"
    and "policy = (\<lambda>mp. [\<lparr>mp_Cluster = GetDestinationCluster mirror
                                       (serviceRegistry (d_Host mirror)) port,
                          mp_RuntimeFraction = mp, mp_TraceSampled = False\<rparr>])"
  shows "(\<forall>redirect. h_Redirect inp = Some redirect \<longrightarrow>
            r_Action r = Some (Route_Redirect (translateRoute_redirect redirect))
          \<and> GetRoute r = None)
       \<and> (h_Redirect inp = None \<longrightarrow>
           (\<exists>a. r_Action r = Some (Route_Route a)
              \<and> (\<forall>pct. h_MirrorPercentage inp = Some pct
                        \<and> float64_less (float64_of_int 0) (pc_Value pct) \<longrightarrow>
                     ra_RequestMirrorPolicies a =
                       policy \<lparr>Numerator =
                                 float64_to_uint32 conv
                                   (float64_mul (pc_Value pct) (float64_of_int 10000)),
                               Denominator = MILLION\<rparr>)
              \<and> (\<forall>pct. h_MirrorPercentage inp = Some pct
                        \<and> \<not> float64_less (float64_of_int 0) (pc_Value pct) \<longrightarrow>
                     ra_RequestMirrorPolicies a = [])
              \<and> (\<forall>n. h_MirrorPercentage inp = None \<and> h_MirrorPercent inp = Some n \<and> n > 0 \<longrightarrow>
                     ra_RequestMirrorPolicies a = policy \<lparr>Numerator = n, Denominator = HUNDRED\<rparr>)
              \<and> (h_MirrorPercentage inp = None \<and> h_MirrorPercent inp = Some 0 \<longrightarrow>
                     ra_RequestMirrorPolicies a = [])
              \<and> (h_MirrorPercentage inp = None \<and> h_MirrorPercent inp = None \<longrightarrow>
                     ra_RequestMirrorPolicies a =
                       policy \<lparr>Numerator = 100, Denominator = HUNDRED\<rparr>)))"
proof (intro conjI allI impI)
  fix redirect
  assume "h_Redirect inp = Some redirect"
  from translateRoute_redirect_Action [OF assms(1) this]
  show "r_Action r = Some (Route_Redirect (translateRoute_redirect redirect))"
    and "GetRoute r = None"
    by (simp_all add: GetRoute_def)
next
  assume "h_Redirect inp = None"
  from translateRoute_forward_route(1) [OF assms(1) this refl refl] assms(2,3)
  obtain a where a: "r_Action r = Some (Route_Route a)"
    and p: "ra_RequestMirrorPolicies a =
              (case mirrorPercent conv inp of None \<Rightarrow> [] | Some mp \<Rightarrow> policy mp)"
    by auto
  show "\<exists>a. r_Action r = Some (Route_Route a)
              \<and> (\<forall>pct. h_MirrorPercentage inp = Some pct
                        \<and> float64_less (float64_of_int 0) (pc_Value pct) \<longrightarrow>
                     ra_RequestMirrorPolicies a =
                       policy \<lparr>Numerator =
                                 float64_to_uint32 conv
                                   (float64_mul (pc_Value pct) (float64_of_int 10000)),
                               Denominator = MILLION\<rparr>)
              \<and> (\<forall>pct. h_MirrorPercentage inp = Some pct
                        \<and> \<not> float64_less (float64_of_int 0) (pc_Value pct) \<longrightarrow>
                     ra_RequestMirrorPolicies a = [])
              \<and> (\<forall>n. h_MirrorPercentage inp = None \<and> h_MirrorPercent inp = Some n \<and> n > 0 \<longrightarrow>
                     ra_RequestMirrorPolicies a = policy \<lparr>Numerator = n, Denominator = HUNDRED\<rparr>)
              \<and> (h_MirrorPercentage inp = None \<and> h_MirrorPercent inp = Some 0 \<longrightarrow>
                     ra_RequestMirrorPolicies a = [])
              \<and> (h_MirrorPercentage inp = None \<and> h_MirrorPercent inp = None \<longrightarrow>
                     ra_RequestMirrorPolicies a =
                       policy \<lparr>Numerator = 100, Denominator = HUNDRED\<rparr>)"
    by (rule exI [of _ a])
       (auto simp add: a p mirrorPercent_def translatePercentToFractionalPercent_def
          translateIntegerToFractionalPercent_def)
qed

text \<open>
  With the legacy percent 30 in both rules: the percentage 0.3 mirrors at 3000 millionths,
  the percentage 0 does not mirror. A rule that redirects compiles to its redirect.
\<close>

theorem translateRoute_mirror_percent_witness:
  "h_Mirror (mirrorRule (Some 30) (Some \<lparr>pc_Value = threeTenths\<rparr>)) =
       Some \<lparr>d_Host = ''m'', d_Subset = [], d_Port = None\<rparr>
   \<and> h_Redirect (mirrorRule (Some 30) (Some \<lparr>pc_Value = threeTenths\<rparr>)) = None
   \<and> float64_less (float64_of_int 0) threeTenths
   \<and> (\<exists>r a. translateRoute zeroOutOfRange None None devProxy
                 (mirrorRule (Some 30) (Some \<lparr>pc_Value = threeTenths\<rparr>)) None 80 exampleConfig
                 emptyRegistry meshGateway = Some r
            \<and> r_Action r = Some (Route_Route a)
            \<and> ra_RequestMirrorPolicies a =
                [\<lparr>mp_Cluster = BuildSubsetKey TrafficDirectionOutbound [] ''m'' 80,
                  mp_RuntimeFraction = \<lparr>Numerator = 3000, Denominator = MILLION\<rparr>,
                  mp_TraceSampled = False\<rparr>])
   \<and> (\<exists>r a. translateRoute zeroOutOfRange None None devProxy
                 (mirrorRule (Some 30) (Some \<lparr>pc_Value = Finite 0 0\<rparr>)) None 80 exampleConfig
                 emptyRegistry meshGateway = Some r
            \<and> r_Action r = Some (Route_Route a)
            \<and> ra_RequestMirrorPolicies a = [])
   \<and> (\<exists>r. translateRoute zeroOutOfRange None None devProxy redirectMirrorRule None 80
               exampleConfig emptyRegistry meshGateway = Some r
           \<and> GetRoute r = None)"
proof (intro conjI)
  show "h_Mirror (mirrorRule (Some 30) (Some \<lparr>pc_Value = threeTenths\<rparr>)) =
          Some \<lparr>d_Host = ''m'', d_Subset = [], d_Port = None\<rparr>"
    and "h_Redirect (mirrorRule (Some 30) (Some \<lparr>pc_Value = threeTenths\<rparr>)) = None"
    by (simp_all add: mirrorRule_def emptyRule_def)
  show "float64_less (float64_of_int 0) threeTenths"
    by (simp add: threeTenths_def float64_defs)
next
  let ?m = "\<lparr>d_Host = ''m'', d_Subset = [], d_Port = None\<rparr>"
  let ?rule = "mirrorRule (Some 30) (Some \<lparr>pc_Value = threeTenths\<rparr>)"
  obtain r where r: "translateRoute zeroOutOfRange None None devProxy ?rule None 80 exampleConfig
                       emptyRegistry meshGateway = Some r"
    using translateRoute_example_Some by blast
  have m: "h_Mirror ?rule = Some ?m" and "h_Redirect ?rule = None"
    and "h_MirrorPercentage ?rule = Some \<lparr>pc_Value = threeTenths\<rparr>"
    by (simp_all add: mirrorRule_def emptyRule_def)
  with translateRoute_mirror_percent [OF r m refl]
  obtain a where "r_Action r = Some (Route_Route a)"
    and "ra_RequestMirrorPolicies a =
           [\<lparr>mp_Cluster = BuildSubsetKey TrafficDirectionOutbound [] ''m'' 80,
             mp_RuntimeFraction = \<lparr>Numerator = 3000, Denominator = MILLION\<rparr>,
             mp_TraceSampled = False\<rparr>]"
    by (auto simp add: emptyRegistry_def GetDestinationCluster_def threeTenths_def float64_defs)
  with r show "\<exists>r a. translateRoute zeroOutOfRange None None devProxy ?rule None 80 exampleConfig
                 emptyRegistry meshGateway = Some r
            \<and> r_Action r = Some (Route_Route a)
            \<and> ra_RequestMirrorPolicies a =
                [\<lparr>mp_Cluster = BuildSubsetKey TrafficDirectionOutbound [] ''m'' 80,
                  mp_RuntimeFraction = \<lparr>Numerator = 3000, Denominator = MILLION\<rparr>,
                  mp_TraceSampled = False\<rparr>]"
    by blast
next
  let ?m = "\<lparr>d_Host = ''m'', d_Subset = [], d_Port = None\<rparr>"
  let ?rule = "mirrorRule (Some 30) (Some \<lparr>pc_Value = Finite 0 0\<rparr>)"
  obtain r where r: "translateRoute zeroOutOfRange None None devProxy ?rule None 80 exampleConfig
                       emptyRegistry meshGateway = Some r"
    using translateRoute_example_Some by blast
  have m: "h_Mirror ?rule = Some ?m" and "h_Redirect ?rule = None"
    and "h_MirrorPercentage ?rule = Some \<lparr>pc_Value = Finite 0 0\<rparr>"
    by (simp_all add: mirrorRule_def emptyRule_def)
  with translateRoute_mirror_percent [OF r m refl]
  obtain a where "r_Action r = Some (Route_Route a)" and "ra_RequestMirrorPolicies a = []"
    by (auto simp add: float64_defs)
  with r show "\<exists>r a. translateRoute zeroOutOfRange None None devProxy ?rule None 80 exampleConfig
                 emptyRegistry meshGateway = Some r
            \<and> r_Action r = Some (Route_Route a) \<and> ra_RequestMirrorPolicies a = []"
    by blast
next
  let ?m = "\<lparr>d_Host = ''m'', d_Subset = [], d_Port = None\<rparr>"
  obtain r where r: "translateRoute zeroOutOfRange None None devProxy redirectMirrorRule None 80
                       exampleConfig emptyRegistry meshGateway = Some r"
    using translateRoute_example_Some by blast
  have m: "h_Mirror redirectMirrorRule = Some ?m"
    and rd: "h_Redirect redirectMirrorRule =
               Some \<lparr>rdr_Uri = ''/new'', rdr_Authority = [], rdr_RedirectCode = 301\<rparr>"
    by (simp_all add: redirectMirrorRule_def mirrorRule_def emptyRule_def)
  from translateRoute_mirror_percent [OF r m refl] rd
  have "GetRoute r = None" by simp
  with r show "\<exists>r. translateRoute zeroOutOfRange None None devProxy redirectMirrorRule None 80
               exampleConfig emptyRegistry meshGateway = Some r
           \<and> GetRoute r = None"
    by simp
qed

text \<open>
  Claim C8, as stated, attaches a mirror policy at 100 percent to every rule that names a
  mirror destination and gives no percentage. A rule that does so and redirects compiles to
  its redirect action, which has no mirror policy.
\<close>

theorem translateRoute_mirror_counterexample:
  "h_Mirror redirectMirrorRule = Some \<lparr>d_Host = ''m'', d_Subset = [], d_Port = None\<rparr>
   \<and> h_MirrorPercent redirectMirrorRule = None
   \<and> h_MirrorPercentage redirectMirrorRule = None
   \<and> map_option r_Action
        (translateRoute zeroOutOfRange None None devProxy redirectMirrorRule None 80 exampleConfig
           emptyRegistry meshGateway) =
      Some (Some (Route_Redirect
        (Some \<lparr>HostRedirect = [], PathRedirect = ''/new'', ResponseCode = MOVED_PERMANENTLY\<rparr>)))"
  by (simp add: translateRoute_def sourceMatchHTTP_def Let_def redirectMirrorRule_def
        mirrorRule_def emptyRule_def translateRoute_redirect_def)

subsection \<open>Fault injection\<close>

text \<open>The fault entry of a compiled route.\<close>

lemma translateRoute_forward_FaultFilterConfig:
  "r_FaultFilterConfig
     (translateRoute_forward conv DefaultRequestTimeout push node inp serviceRegistry port out) =
   r_FaultFilterConfig out"
  by (simp add: translateRoute_forward_def Let_def case_prod_beta)

lemma translateRoute_FaultFilterConfig:
  assumes "translateRoute conv DefaultRequestTimeout push node inp match port virtualService
             serviceRegistry gatewayNames = Some r"
  shows "r_FaultFilterConfig r =
           (case h_Fault inp of
              None \<Rightarrow> None
            | Some fault \<Rightarrow> Some (translateFault conv (Some fault)))"
  using assms
  by (auto simp add: translateRoute_def translateRoute_forward_FaultFilterConfig Let_def
      split: if_splits option.splits)

text \<open>
  Claim C9, as the code has it. For a fault \<open>f\<close>: a fixed delay gives a delay
  sub-policy whose percentage comes from the field \<open>Percentage\<close> when present
  (\<open>uint32(value * 10000)\<close> millionths) and else from the legacy integer field
  \<open>Percent\<close> (hundredths); a delay of any other type gives no delay sub-policy. An abort
  with an HTTP status gives an abort sub-policy whose percentage comes from the field
  \<open>Percentage\<close> alone and is absent when that field is absent (the code reads no legacy
  field of an abort); an abort of any other type gives no abort sub-policy.
  \<open>translateFault\<close> returns no fault policy exactly when both sub-policies are disabled
  or absent. A route compiled from a rule with no fault has no entry for the fault filter;
  a route compiled from a rule with a fault has one, which holds what \<open>translateFault\<close>
  returns: the policy, and the serialisation of no policy when both sub-policies are
  disabled.
\<close>

theorem translateFault_policy:
  "(\<forall>d fixed. fi_Delay f = Some d \<and> fd_HttpDelayType d = Some (Delay_FixedDelay fixed) \<longrightarrow>
      (\<exists>p. translateFault conv (Some f) = Some p
         \<and> xf_Delay p =
             Some \<lparr>xd_Percentage =
                     Some (case fd_Percentage d of
                             Some pct \<Rightarrow>
                               \<lparr>Numerator =
                                  float64_to_uint32 conv
                                    (float64_mul (pc_Value pct) (float64_of_int 10000)),
                                Denominator = MILLION\<rparr>
                           | None \<Rightarrow> \<lparr>Numerator = fd_Percent d, Denominator = HUNDRED\<rparr>),
                   xd_FaultDelaySecifier = Some (FaultDelay_FixedDelay fixed)\<rparr>))
   \<and> (\<forall>d p. fi_Delay f = Some d \<and> (\<forall>fixed. fd_HttpDelayType d \<noteq> Some (Delay_FixedDelay fixed))
          \<and> translateFault conv (Some f) = Some p \<longrightarrow> xf_Delay p = None)
   \<and> (\<forall>a status. fi_Abort f = Some a \<and> fa_ErrorType a = Some (Abort_HttpStatus status) \<longrightarrow>
      (\<exists>p. translateFault conv (Some f) = Some p
         \<and> xf_Abort p =
             Some \<lparr>xa_Percentage =
                     (case fa_Percentage a of
                        Some pct \<Rightarrow>
                          Some \<lparr>Numerator =
                                  float64_to_uint32 conv
                                    (float64_mul (pc_Value pct) (float64_of_int 10000)),
                                Denominator = MILLION\<rparr>
                      | None \<Rightarrow> None),
                   xa_ErrorType = Some (FaultAbort_HttpStatus status)\<rparr>))
   \<and> (\<forall>a p. fi_Abort f = Some a \<and> (\<forall>status. fa_ErrorType a \<noteq> Some (Abort_HttpStatus status))
          \<and> translateFault conv (Some f) = Some p \<longrightarrow> xf_Abort p = None)
   \<and> (translateFault conv (Some f) = None \<longleftrightarrow>
        (case fi_Delay f of
           None \<Rightarrow> True
         | Some d \<Rightarrow> \<forall>fixed. fd_HttpDelayType d \<noteq> Some (Delay_FixedDelay fixed))
        \<and> (case fi_Abort f of
             None \<Rightarrow> True
           | Some a \<Rightarrow> \<forall>status. fa_ErrorType a \<noteq> Some (Abort_HttpStatus status)))
   \<and> (\<forall>r. translateRoute conv DefaultRequestTimeout push node inp match port virtualService
              serviceRegistry gatewayNames = Some r \<longrightarrow>
          (h_Fault inp = None \<longrightarrow> r_FaultFilterConfig r = None)
        \<and> (h_Fault inp = Some f \<longrightarrow> r_FaultFilterConfig r = Some (translateFault conv (Some f))))"
proof -
  have delay_none:
    "translateFault_Delay conv d = None \<longleftrightarrow>
       (\<forall>fixed. fd_HttpDelayType d \<noteq> Some (Delay_FixedDelay fixed))"
    for d
    by (auto simp add: translateFault_Delay_def Let_def split: option.splits HttpDelayType.splits)
  have abort_none:
    "translateFault_Abort conv a = None \<longleftrightarrow>
       (\<forall>status. fa_ErrorType a \<noteq> Some (Abort_HttpStatus status))"
    for a
    by (auto simp add: translateFault_Abort_def Let_def split: option.splits AbortErrorType.splits)
  have delay_some:
    "translateFault_Delay conv d =
       Some \<lparr>xd_Percentage =
               Some (case fd_Percentage d of
                       Some pct \<Rightarrow>
                         \<lparr>Numerator =
                            float64_to_uint32 conv
                              (float64_mul (pc_Value pct) (float64_of_int 10000)),
                          Denominator = MILLION\<rparr>
                     | None \<Rightarrow> \<lparr>Numerator = fd_Percent d, Denominator = HUNDRED\<rparr>),
             xd_FaultDelaySecifier = Some (FaultDelay_FixedDelay fixed)\<rparr>"
    if "fd_HttpDelayType d = Some (Delay_FixedDelay fixed)" for d fixed
    using that
    by (simp add: translateFault_Delay_def translatePercentToFractionalPercent_def
          translateIntegerToFractionalPercent_def Let_def split: option.splits)
  have abort_some:
    "translateFault_Abort conv a =
       Some \<lparr>xa_Percentage =
               (case fa_Percentage a of
                  Some pct \<Rightarrow>
                    Some \<lparr>Numerator =
                            float64_to_uint32 conv
                              (float64_mul (pc_Value pct) (float64_of_int 10000)),
                          Denominator = MILLION\<rparr>
                | None \<Rightarrow> None),
             xa_ErrorType = Some (FaultAbort_HttpStatus status)\<rparr>"
    if "fa_ErrorType a = Some (Abort_HttpStatus status)" for a status
    using that
    by (simp add: translateFault_Abort_def translatePercentToFractionalPercent_def Let_def
          split: option.splits)
  show ?thesis
  proof (intro conjI allI impI)
    fix d fixed
    assume "fi_Delay f = Some d \<and> fd_HttpDelayType d = Some (Delay_FixedDelay fixed)"
    then show "\<exists>p. translateFault conv (Some f) = Some p
         \<and> xf_Delay p =
             Some \<lparr>xd_Percentage =
                     Some (case fd_Percentage d of
                             Some pct \<Rightarrow>
                               \<lparr>Numerator =
                                  float64_to_uint32 conv
                                    (float64_mul (pc_Value pct) (float64_of_int 10000)),
                                Denominator = MILLION\<rparr>
                           | None \<Rightarrow> \<lparr>Numerator = fd_Percent d, Denominator = HUNDRED\<rparr>),
                   xd_FaultDelaySecifier = Some (FaultDelay_FixedDelay fixed)\<rparr>"
      by (simp add: translateFault_def Let_def delay_some)
  next
    fix d p
    assume "fi_Delay f = Some d \<and> (\<forall>fixed. fd_HttpDelayType d \<noteq> Some (Delay_FixedDelay fixed))
          \<and> translateFault conv (Some f) = Some p"
    then show "xf_Delay p = None"
      using delay_none [of d] by (auto simp add: translateFault_def Let_def split: if_splits)
  next
    fix a status
    assume "fi_Abort f = Some a \<and> fa_ErrorType a = Some (Abort_HttpStatus status)"
    then show "\<exists>p. translateFault conv (Some f) = Some p
         \<and> xf_Abort p =
             Some \<lparr>xa_Percentage =
                     (case fa_Percentage a of
                        Some pct \<Rightarrow>
                          Some \<lparr>Numerator =
                                  float64_to_uint32 conv
                                    (float64_mul (pc_Value pct) (float64_of_int 10000)),
                                Denominator = MILLION\<rparr>
                      | None \<Rightarrow> None),
                   xa_ErrorType = Some (FaultAbort_HttpStatus status)\<rparr>"
      by (simp add: translateFault_def Let_def abort_some)
  next
    fix a p
    assume "fi_Abort f = Some a \<and> (\<forall>status. fa_ErrorType a \<noteq> Some (Abort_HttpStatus status))
          \<and> translateFault conv (Some f) = Some p"
    then show "xf_Abort p = None"
      using abort_none [of a] by (auto simp add: translateFault_def Let_def split: if_splits)
  next
    show "translateFault conv (Some f) = None \<longleftrightarrow>
        (case fi_Delay f of
           None \<Rightarrow> True
         | Some d \<Rightarrow> \<forall>fixed. fd_HttpDelayType d \<noteq> Some (Delay_FixedDelay fixed))
        \<and> (case fi_Abort f of
             None \<Rightarrow> True
           | Some a \<Rightarrow> \<forall>status. fa_ErrorType a \<noteq> Some (Abort_HttpStatus status))"
    proof (cases "fi_Delay f")
      case None
      then show ?thesis
        by (cases "fi_Abort f") (simp_all add: translateFault_def Let_def abort_none)
    next
      case (Some d)
      then show ?thesis
        by (cases "fi_Abort f") (simp_all add: translateFault_def Let_def delay_none abort_none)
    qed
  next
    fix r
    assume r: "translateRoute conv DefaultRequestTimeout push node inp match port virtualService
              serviceRegistry gatewayNames = Some r"
    show "r_FaultFilterConfig r = None" if "h_Fault inp = None"
      using that translateRoute_FaultFilterConfig [OF r] by simp
    show "r_FaultFilterConfig r = Some (translateFault conv (Some f))" if "h_Fault inp = Some f"
      using that translateRoute_FaultFilterConfig [OF r] by simp
  qed
qed

text \<open>
  Claim C9, as stated, gives the abort percentage the fallback of the delay percentage,
  and attaches nothing to the route when both sub-policies are disabled. For a fault whose
  delay and abort both give no \<open>Percentage\<close>, and whose delay has the legacy percent 50,
  the delay sub-policy has the percentage 50 hundredths and the abort sub-policy has no
  percentage. For a fault with an exponential delay and a gRPC abort, both disabled, the
  compiled route has an entry for the fault filter, that of no policy.
\<close>

theorem translateFault_counterexample:
  "translateFault zeroOutOfRange (Some abortNoPercentage) =
     Some \<lparr>xf_Delay =
             Some \<lparr>xd_Percentage = Some \<lparr>Numerator = 50, Denominator = HUNDRED\<rparr>,
                   xd_FaultDelaySecifier =
                     Some (FaultDelay_FixedDelay (Some \<lparr>Seconds = 5, Nanos = 0\<rparr>))\<rparr>,
           xf_Abort =
             Some \<lparr>xa_Percentage = None,
                   xa_ErrorType = Some (FaultAbort_HttpStatus 500)\<rparr>\<rparr>
   \<and> translateFault zeroOutOfRange (Some unsupportedFault) = None
   \<and> map_option r_FaultFilterConfig
        (translateRoute zeroOutOfRange None None devProxy (emptyRule\<lparr>h_Fault := Some unsupportedFault\<rparr>)
           None 80 exampleConfig emptyRegistry meshGateway) =
      Some (Some None)"
  by (simp add: translateRoute_def sourceMatchHTTP_def translateRoute_forward_FaultFilterConfig
        translateFault_def translateFault_Delay_def translateFault_Abort_def
        abortNoPercentage_def unsupportedFault_def emptyRule_def
        translateIntegerToFractionalPercent_def Let_def)

text \<open>
  A fixed delay at the percentage 0.3 with an HTTP abort of no percentage translates to a
  policy with the delay at 3000 millionths, which the compiled route holds; an exponential
  delay with a gRPC abort translates to no fault policy, and the compiled route holds the
  entry of no policy.
\<close>

theorem translateFault_policy_witness:
  "translateFault zeroOutOfRange (Some unsupportedFault) = None
   \<and> (\<exists>p. translateFault zeroOutOfRange (Some delayThreeTenths) = Some p
         \<and> xf_Delay p =
             Some \<lparr>xd_Percentage = Some \<lparr>Numerator = 3000, Denominator = MILLION\<rparr>,
                   xd_FaultDelaySecifier =
                     Some (FaultDelay_FixedDelay (Some \<lparr>Seconds = 5, Nanos = 0\<rparr>))\<rparr>
         \<and> xf_Abort p =
             Some \<lparr>xa_Percentage = None, xa_ErrorType = Some (FaultAbort_HttpStatus 500)\<rparr>
         \<and> (\<exists>r. translateRoute zeroOutOfRange None None devProxy
                    (emptyRule\<lparr>h_Fault := Some delayThreeTenths\<rparr>) None 80 exampleConfig
                    emptyRegistry meshGateway = Some r
                \<and> r_FaultFilterConfig r = Some (Some p)))
   \<and> (\<exists>r. translateRoute zeroOutOfRange None None devProxy
              (emptyRule\<lparr>h_Fault := Some unsupportedFault\<rparr>) None 80 exampleConfig
              emptyRegistry meshGateway = Some r
          \<and> r_FaultFilterConfig r = Some None)
   \<and> (\<exists>r. translateRoute zeroOutOfRange None None devProxy emptyRule None 80 exampleConfig
              emptyRegistry meshGateway = Some r
          \<and> r_FaultFilterConfig r = None)"
proof (intro conjI)
  show none: "translateFault zeroOutOfRange (Some unsupportedFault) = None"
    using translateFault_policy [where f = unsupportedFault and conv = zeroOutOfRange]
    by (simp add: unsupportedFault_def)
  let ?rule = "emptyRule\<lparr>h_Fault := Some unsupportedFault\<rparr>"
  obtain r where r: "translateRoute zeroOutOfRange None None devProxy ?rule None 80 exampleConfig
                       emptyRegistry meshGateway = Some r"
    using translateRoute_example_Some by blast
  have "h_Fault ?rule = Some unsupportedFault" by simp
  with translateFault_policy
         [where f = unsupportedFault and conv = zeroOutOfRange and inp = ?rule
            and DefaultRequestTimeout = None and push = None and node = devProxy
            and match = None and port = 80 and virtualService = exampleConfig
            and serviceRegistry = emptyRegistry and gatewayNames = meshGateway] r none
  have "r_FaultFilterConfig r = Some None" by simp
  with r show "\<exists>r. translateRoute zeroOutOfRange None None devProxy ?rule None 80 exampleConfig
              emptyRegistry meshGateway = Some r
          \<and> r_FaultFilterConfig r = Some None"
    by simp
next
  obtain r where r: "translateRoute zeroOutOfRange None None devProxy emptyRule None 80
                       exampleConfig emptyRegistry meshGateway = Some r"
    using translateRoute_example_Some by blast
  have "h_Fault emptyRule = None" by (simp add: emptyRule_def)
  with translateFault_policy
         [where conv = zeroOutOfRange and inp = emptyRule
            and DefaultRequestTimeout = None and push = None and node = devProxy
            and match = None and port = 80 and virtualService = exampleConfig
            and serviceRegistry = emptyRegistry and gatewayNames = meshGateway] r
  have "r_FaultFilterConfig r = None" by simp
  with r show "\<exists>r. translateRoute zeroOutOfRange None None devProxy emptyRule None 80 exampleConfig
              emptyRegistry meshGateway = Some r
          \<and> r_FaultFilterConfig r = None"
    by simp
next
  let ?rule = "emptyRule\<lparr>h_Fault := Some delayThreeTenths\<rparr>"
  note policy_at = translateFault_policy
         [where f = delayThreeTenths and conv = zeroOutOfRange and inp = ?rule
            and DefaultRequestTimeout = None and push = None and node = devProxy
            and match = None and port = 80 and virtualService = exampleConfig
            and serviceRegistry = emptyRegistry and gatewayNames = meshGateway]
  obtain r where r: "translateRoute zeroOutOfRange None None devProxy ?rule None 80 exampleConfig
                       emptyRegistry meshGateway = Some r"
    using translateRoute_example_Some by blast
  have fields: "fi_Delay delayThreeTenths =
                  Some \<lparr>fd_Percent = 50,
                        fd_HttpDelayType = Some (Delay_FixedDelay (Some \<lparr>Seconds = 5, Nanos = 0\<rparr>)),
                        fd_Percentage = Some \<lparr>pc_Value = threeTenths\<rparr>\<rparr>"
    "fi_Abort delayThreeTenths =
       Some \<lparr>fa_ErrorType = Some (Abort_HttpStatus 500), fa_Percentage = None\<rparr>"
    by (simp_all add: delayThreeTenths_def)
  from policy_at fields obtain p where p: "translateFault zeroOutOfRange (Some delayThreeTenths) = Some p"
    and d: "xf_Delay p =
             Some \<lparr>xd_Percentage = Some \<lparr>Numerator = 3000, Denominator = MILLION\<rparr>,
                   xd_FaultDelaySecifier =
                     Some (FaultDelay_FixedDelay (Some \<lparr>Seconds = 5, Nanos = 0\<rparr>))\<rparr>"
    by (auto simp add: threeTenths_def float64_defs)
  from policy_at fields p have a: "xf_Abort p =
             Some \<lparr>xa_Percentage = None, xa_ErrorType = Some (FaultAbort_HttpStatus 500)\<rparr>"
    by auto
  have "h_Fault ?rule = Some delayThreeTenths" by simp
  with policy_at r p have "r_FaultFilterConfig r = Some (Some p)" by simp
  with r p d a show "\<exists>p. translateFault zeroOutOfRange (Some delayThreeTenths) = Some p
         \<and> xf_Delay p =
             Some \<lparr>xd_Percentage = Some \<lparr>Numerator = 3000, Denominator = MILLION\<rparr>,
                   xd_FaultDelaySecifier =
                     Some (FaultDelay_FixedDelay (Some \<lparr>Seconds = 5, Nanos = 0\<rparr>))\<rparr>
         \<and> xf_Abort p =
             Some \<lparr>xa_Percentage = None, xa_ErrorType = Some (FaultAbort_HttpStatus 500)\<rparr>
         \<and> (\<exists>r. translateRoute zeroOutOfRange None None devProxy ?rule None 80 exampleConfig
                    emptyRegistry meshGateway = Some r
                \<and> r_FaultFilterConfig r = Some (Some p))"
    by simp
qed

subsection \<open>Expansion of a rule into routes\<close>

text \<open>\<open>catchAllMatch\<close> returns the first catch-all block in declared order.\<close>

lemma catchAllMatch_loop_first:
  "\<forall>x \<in> set pre. \<not> isCatchAllMatch x \<Longrightarrow> isCatchAllMatch m \<Longrightarrow>
   catchAllMatch_loop (pre @ m # post) = Some m"
  by (induction pre) simp_all

text \<open>The rules behind a rule with no match block do not change the result.\<close>

lemma BuildHTTPRoutes_rules_no_match:
  assumes "h_Match http = []"
  shows "BuildHTTPRoutes_rules conv DefaultRequestTimeout push node listenPort virtualService
              serviceRegistry gatewayNames (pre @ http # rest) out =
         BuildHTTPRoutes_rules conv DefaultRequestTimeout push node listenPort virtualService
              serviceRegistry gatewayNames (pre @ [http]) out"
  using assms by (induction pre arbitrary: out) (simp_all split: option.splits)

text \<open>
  Claim C5. When the loop over the rules of a virtual service reaches a rule with no match
  block, with the routes \<open>out\<close> compiled so far, the result is \<open>out\<close> followed by the one
  route that the rule translates to with no match block, whatever rules are declared after
  it. So the rule is translated once, with no match block, it contributes that single
  route, and no later rule contributes any; the whole result is that of the virtual
  service cut off after this rule.
\<close>

theorem BuildHTTPRoutes_rule_without_match:
  assumes "h_Match http = []"
  shows "(\<exists>r. translateRoute conv DefaultRequestTimeout push node http None listenPort virtualService
              serviceRegistry gatewayNames = Some r
            \<and> BuildHTTPRoutes_rules conv DefaultRequestTimeout push node listenPort virtualService
              serviceRegistry gatewayNames (http # rest) out =
                out @ [r])
       \<and> BuildHTTPRoutes_rules conv DefaultRequestTimeout push node listenPort virtualService
              serviceRegistry gatewayNames (pre @ http # rest) out =
           BuildHTTPRoutes_rules conv DefaultRequestTimeout push node listenPort virtualService
              serviceRegistry gatewayNames (pre @ [http]) out"
proof
  obtain r where "translateRoute conv DefaultRequestTimeout push node http None listenPort virtualService
              serviceRegistry gatewayNames = Some r"
    using translateRoute_None_iff
            [of conv DefaultRequestTimeout push node http None listenPort virtualService
                serviceRegistry gatewayNames]
    by (auto simp: sourceMatchHTTP_def)
  with assms
  show "\<exists>r. translateRoute conv DefaultRequestTimeout push node http None listenPort virtualService
              serviceRegistry gatewayNames = Some r
            \<and> BuildHTTPRoutes_rules conv DefaultRequestTimeout push node listenPort virtualService
              serviceRegistry gatewayNames (http # rest) out =
                out @ [r]"
    by simp
next
  from assms
  show "BuildHTTPRoutes_rules conv DefaultRequestTimeout push node listenPort virtualService
              serviceRegistry gatewayNames (pre @ http # rest) out =
        BuildHTTPRoutes_rules conv DefaultRequestTimeout push node listenPort virtualService
              serviceRegistry gatewayNames (pre @ [http]) out"
    by (rule BuildHTTPRoutes_rules_no_match)
qed

text \<open>
  Claim C1, as the code has it. If the first catch-all match block of a rule, in declared
  order, translates to a route, then compiling the rule emits that route alone: the loop
  over the rules appends it to the routes compiled so far and stops, and a virtual service
  with this rule alone compiles to exactly this one route. (A match block is catch-all
  when it has no header predicate, no query-parameter predicate, and the URI prefix \<open>/\<close>
  or the URI regex \<open>*\<close>; a block with no URI predicate is not.)
\<close>

theorem BuildHTTPRoutes_first_catch_all:
  assumes "h_Match http = pre @ m # post"
    and "\<forall>x \<in> set pre. \<not> isCatchAllMatch x"
    and "isCatchAllMatch m"
    and "translateRoute conv DefaultRequestTimeout push node http (Some m) listenPort virtualService
              serviceRegistry gatewayNames = Some r"
  shows "BuildHTTPRoutes_rules conv DefaultRequestTimeout push node listenPort virtualService
              serviceRegistry gatewayNames (http # rest) out =
           out @ [r]
       \<and> (cfg_Spec virtualService = Spec_VirtualService \<lparr>vs_Hosts = hosts, vs_Http = [http]\<rparr> \<longrightarrow>
            BuildHTTPRoutesForVirtualService conv DefaultRequestTimeout node push virtualService
              serviceRegistry listenPort gatewayNames = Inr [r])"
proof -
  have "catchAllMatch http = Some m"
    using assms(1-3) by (simp add: catchAllMatch_def catchAllMatch_loop_first)
  with assms(1,4)
  have "BuildHTTPRoutes_rules conv DefaultRequestTimeout push node listenPort virtualService
              serviceRegistry gatewayNames (http # rest) out =
          out @ [r]" for rest out
    by simp
  then show ?thesis
    by (simp add: BuildHTTPRoutesForVirtualService_def)
qed

text \<open>A compiled route carries the translation of the match block it was compiled for.\<close>

lemma translateRoute_forward_Match:
  "r_Match (translateRoute_forward conv DefaultRequestTimeout push node inp serviceRegistry port out) = r_Match out"
  by (simp add: translateRoute_forward_def Let_def case_prod_beta)

lemma translateRoute_Match:
  "translateRoute conv DefaultRequestTimeout push node inp match port virtualService serviceRegistry
              gatewayNames = Some r \<Longrightarrow>
   r_Match r = translateRouteMatch match"
  by (auto simp add: translateRoute_def translateRoute_forward_Match Let_def
      split: if_splits option.splits)

text \<open>Definitions that the evaluation of the match examples unfolds.\<close>

lemmas match_defs =
  emptyMatch_def prefixMatch_def headerMatch_def catchAllProd_def ruleWithMatches_def
  devProxy_def meshGateway_def isCatchAllMatch_def

text \<open>
  Claim C1, as stated, fails on two rules, compiled for a proxy labelled \<open>env: dev\<close>.
  The first rule has the blocks: catch-all for the source label \<open>env: prod\<close>, catch-all,
  header \<open>foo = bar\<close>. It contains a catch-all block whose translation succeeds (the
  second), but the first catch-all block is the one tried, it fails, and the rule emits
  two routes. The second rule has the blocks: header \<open>foo = bar\<close>, the empty block
  \<open>{}\<close>. The empty block has no URI predicate, so it is not catch-all, and the rule
  emits two routes.
\<close>

theorem BuildHTTPRoutes_counterexample:
  "isCatchAllMatch (prefixMatch ''/'')
   \<and> h_Match (ruleWithMatches [catchAllProd, prefixMatch ''/'', headerMatch]) =
       [catchAllProd, prefixMatch ''/'', headerMatch]
   \<and> translateRoute zeroOutOfRange None None devProxy (ruleWithMatches [catchAllProd, prefixMatch ''/'', headerMatch])
        (Some (prefixMatch ''/'')) 80 exampleConfig emptyRegistry meshGateway \<noteq> None
   \<and> map r_Match
        (BuildHTTPRoutes_rules zeroOutOfRange None None devProxy 80 exampleConfig emptyRegistry meshGateway
           [ruleWithMatches [catchAllProd, prefixMatch ''/'', headerMatch]] []) =
       [translateRouteMatch (Some (prefixMatch ''/'')), translateRouteMatch (Some headerMatch)]
   \<and> map r_Match
        (BuildHTTPRoutes_rules zeroOutOfRange None None devProxy 80 exampleConfig emptyRegistry meshGateway
           [ruleWithMatches [headerMatch, emptyMatch]] []) =
       [translateRouteMatch (Some headerMatch), translateRouteMatch (Some emptyMatch)]"
  by (simp add: match_defs emptyRule_def catchAllMatch_def translateRoute_def
        sourceMatchHTTP_def IsSupersetOf_def translateRoute_forward_Match Let_def)


text \<open>A rule with no match block, followed by a rule with a header match: one route.\<close>

theorem BuildHTTPRoutes_rule_without_match_witness:
  "h_Match (ruleWithMatches []) = []
   \<and> (\<exists>r. translateRoute zeroOutOfRange None None devProxy (ruleWithMatches []) None 80 exampleConfig emptyRegistry meshGateway = Some r
          \<and> BuildHTTPRoutes_rules zeroOutOfRange None None devProxy 80 exampleConfig emptyRegistry meshGateway
               [ruleWithMatches [], ruleWithMatches [headerMatch]] [] = [r])"
proof -
  have h: "h_Match (ruleWithMatches []) = []"
    by (simp add: ruleWithMatches_def)
  from BuildHTTPRoutes_rule_without_match
         [OF h, of zeroOutOfRange None None devProxy 80 exampleConfig emptyRegistry meshGateway
            "[ruleWithMatches [headerMatch]]" "[]" "[]"]
  show ?thesis using h by simp
qed

text \<open>
  The example of the specification, with the catch-all block written out: the blocks
  header \<open>foo = bar\<close> and URI prefix \<open>/\<close> compile to exactly one route, the catch-all.
\<close>

theorem BuildHTTPRoutes_first_catch_all_witness:
  "h_Match (ruleWithMatches [headerMatch, prefixMatch ''/'']) = [headerMatch] @ prefixMatch ''/'' # []
   \<and> \<not> isCatchAllMatch headerMatch
   \<and> isCatchAllMatch (prefixMatch ''/'')
   \<and> (\<exists>r. translateRoute zeroOutOfRange None None devProxy (ruleWithMatches [headerMatch, prefixMatch ''/''])
              (Some (prefixMatch ''/'')) 80
              (virtualServiceOf [ruleWithMatches [headerMatch, prefixMatch ''/'']])
              emptyRegistry meshGateway = Some r
          \<and> r_Match r = translateRouteMatch (Some (prefixMatch ''/''))
          \<and> BuildHTTPRoutesForVirtualService zeroOutOfRange None devProxy None
               (virtualServiceOf [ruleWithMatches [headerMatch, prefixMatch ''/'']])
               emptyRegistry 80 meshGateway = Inr [r])"
proof -
  let ?rule = "ruleWithMatches [headerMatch, prefixMatch ''/'']"
  have 1: "h_Match ?rule = [headerMatch] @ prefixMatch ''/'' # []"
    by (simp add: ruleWithMatches_def)
  have 2: "\<forall>x \<in> set [headerMatch]. \<not> isCatchAllMatch x"
    by (simp add: match_defs)
  have 3: "isCatchAllMatch (prefixMatch ''/'')"
    by (simp add: match_defs)
  obtain r where r: "translateRoute zeroOutOfRange None None devProxy ?rule (Some (prefixMatch ''/'')) 80
                       (virtualServiceOf [?rule]) emptyRegistry meshGateway = Some r"
    using translateRoute_None_iff
            [of zeroOutOfRange None None devProxy ?rule "Some (prefixMatch ''/'')" 80 "virtualServiceOf [?rule]"
                emptyRegistry meshGateway]
    by (auto simp: sourceMatchHTTP_def IsSupersetOf_def match_defs)
  from BuildHTTPRoutes_first_catch_all [OF 1 2 3 r, of "[]" "[]" "[''a'']"]
  have "BuildHTTPRoutesForVirtualService zeroOutOfRange None devProxy None (virtualServiceOf [?rule])
          emptyRegistry 80 meshGateway = Inr [r]"
    by (simp add: virtualServiceOf_def)
  with 1 2 3 r translateRoute_Match [OF r] show ?thesis by auto
qed

end
